theory Spec2Isabelle
  imports Complex_Main
begin

text \<open>
  UpsetIQ: a mobile client (React Native, TypeScript) for upset probability scores, and
  the relational schema of the pipeline behind it. The client's services, contexts and
  utilities are embedded function by function; the scheduler, the scorer and the alert
  engine of the pipeline, whose code is not part of the sources, are modelled from their
  specification and marked as such.
\<close>

section \<open>Data model of the mobile client (types/index.ts)\<close>

text \<open>
  A JavaScript \<open>number\<close> is modelled as the rational it denotes. Comparisons of
  doubles agree with the comparisons of these rationals, and the sign of \<open>b - a\<close> is the
  sign of the exact difference, which is all that the sort comparators and the filters
  use. \<open>NaN\<close> and the infinities have no counterpart here, and the one sum the client
  computes (a spread movement) is exact here where a double may round.
\<close>

type_synonym number = rat

datatype Sport = NBA | NFL | MLB | NHL | Soccer | CFB

text \<open>The string literal behind each member of the union type \<open>Sport\<close>.\<close>

fun sport_name :: "Sport \<Rightarrow> string" where
  "sport_name NBA = ''NBA''"
| "sport_name NFL = ''NFL''"
| "sport_name MLB = ''MLB''"
| "sport_name NHL = ''NHL''"
| "sport_name Soccer = ''Soccer''"
| "sport_name CFB = ''CFB''"

datatype GameStatus = Upcoming | Live | Completed

text \<open>
  Fields that several interfaces share (\<open>id\<close>, \<open>game_id\<close>, \<open>created_at\<close>) carry a
  prefix naming their interface. An optional field \<open>f?: T\<close> is a \<open>T option\<close>.
  At run time \<open>sport\<close> holds whatever string the API sent (\<open>apiGame.sport as Sport\<close>
  is an unchecked cast), so it is a string here.
\<close>

record Game =
  g_id :: string
  sport :: string
  team_favorite :: string
  team_underdog :: string
  start_time :: string
  odds_open :: number
  odds_current :: number
  status :: "GameStatus option"
  isPrimeTime :: "bool option"
  spreadOpen :: "number option"
  spreadCurrent :: "number option"
  totalOpen :: "number option"
  totalCurrent :: "number option"

record Prediction =
  p_id :: string
  p_game_id :: string
  upset_probability :: number
  model_version :: string
  confidence_band :: number
  p_created_at :: string

record MarketSignal =
  m_id :: string
  m_game_id :: string
  public_bet_percentage :: number
  line_movement :: number
  sentiment_score :: number
  m_created_at :: string

record Driver =
  label :: string

record GameWithPrediction = Game +
  prediction :: Prediction
  marketSignal :: MarketSignal
  drivers :: "Driver list option"

section \<open>Drivers and key signals (data/mockData.ts)\<close>

text \<open>\<open>Array.prototype.slice(0, n)\<close>.\<close>

definition slice0 :: "nat \<Rightarrow> 'a list \<Rightarrow> 'a list" where
  "slice0 n xs = take n xs"

definition MODEL_CONFIDENCE_HIGH :: string where
  "MODEL_CONFIDENCE_HIGH = ''Model confidence high''"

text \<open>
  The label pushed for a public share of at least 70; the bytes between
  \<open>Public\<close> and \<open>70%\<close> are those of the source file.
\<close>

definition PUBLIC_ON_FAVORITE :: string where
  "PUBLIC_ON_FAVORITE =
     ''Public '' @ [CHR 0xC3, CHR 0xA2, CHR 0xE2, CHR 0x80, CHR 0xB0, CHR 0xC2, CHR 0xA5]
       @ '' 70% on favorite''"

text \<open>
  \<open>while (xs.length < 3) xs.push('Model confidence high')\<close>, on label strings
  (\<open>getKeySignals\<close>) and on driver objects (\<open>mockGamesWithPredictions\<close>).
\<close>

function pad_to_three :: "'a \<Rightarrow> 'a list \<Rightarrow> 'a list" where
  "pad_to_three filler xs =
     (if length xs < 3 then pad_to_three filler (xs @ [filler]) else xs)"
  by pat_completeness auto
termination
  by (relation "measure (\<lambda>(filler, xs). 3 - length xs)") auto

declare pad_to_three.simps [simp del]

text \<open>
  The two operations on doubles whose result is not that of the exact arithmetic:
  \<open>minus\<close> is the subtraction \<open>a - b\<close>, which rounds its result to a double, and
  \<open>toFixed1\<close> is \<open>Number.prototype.toFixed(1)\<close>.
\<close>

record NumberOps =
  minus :: "number \<Rightarrow> number \<Rightarrow> number"
  toFixed1 :: "number \<Rightarrow> string"

text \<open>
  The body of the \<open>map\<close> callback of \<open>mockGamesWithPredictions\<close>, after the two
  \<open>find\<close> calls succeeded.
\<close>

definition nfl_drivers :: "NumberOps \<Rightarrow> Game \<Rightarrow> MarketSignal \<Rightarrow> Driver list" where
  "nfl_drivers js game ms =
     (case (spreadOpen game, spreadCurrent game) of
        (Some so, Some sc) \<Rightarrow>
          (let spreadMovement = minus js sc so in
           if \<bar>spreadMovement\<bar> \<ge> 1 then
             [\<lparr>label = ''Spread moved '' @ toFixed1 js \<bar>spreadMovement\<bar> @ '' points ''
                 @ (if spreadMovement > 0 then ''vs'' else ''toward'') @ '' favorite''\<rparr>]
           else [])
      | _ \<Rightarrow> [])
     @ (if public_bet_percentage ms \<ge> 70 then [\<lparr>label = PUBLIC_ON_FAVORITE\<rparr>] else [])
     @ (if isPrimeTime game = Some True then [\<lparr>label = ''Prime time game''\<rparr>] else [])"

definition general_drivers :: "Prediction \<Rightarrow> MarketSignal \<Rightarrow> Driver list" where
  "general_drivers p ms =
     (if line_movement ms < -10 then [\<lparr>label = ''Line movement against favorite''\<rparr>] else [])
     @ (if upset_probability p > 65 then [\<lparr>label = ''Historical anomaly detected''\<rparr>] else [])"

definition generated_drivers :: "NumberOps \<Rightarrow> Game \<Rightarrow> Prediction \<Rightarrow> MarketSignal \<Rightarrow> Driver list" where
  "generated_drivers js game p ms =
     (if sport game = ''NFL'' then nfl_drivers js game ms else [])
     @ general_drivers p ms"

definition build_drivers :: "NumberOps \<Rightarrow> Game \<Rightarrow> Prediction \<Rightarrow> MarketSignal \<Rightarrow> Driver list" where
  "build_drivers js game p ms =
     slice0 6 (pad_to_three \<lparr>label = MODEL_CONFIDENCE_HIGH\<rparr> (generated_drivers js game p ms))"

text \<open>\<open>Array.prototype.find\<close>.\<close>

fun find_first :: "('a \<Rightarrow> bool) \<Rightarrow> 'a list \<Rightarrow> 'a option" where
  "find_first P [] = None"
| "find_first P (x # xs) = (if P x then Some x else find_first P xs)"

text \<open>
  One element of \<open>mockGamesWithPredictions\<close>: the thrown \<open>Error\<close> is the left
  summand, carrying its message.
\<close>

definition mockGameWithPrediction ::
  "NumberOps \<Rightarrow> Prediction list \<Rightarrow> MarketSignal list \<Rightarrow> Game \<Rightarrow> string + GameWithPrediction" where
  "mockGameWithPrediction js mockPredictions mockMarketSignals game =
     (case (find_first (\<lambda>p. p_game_id p = g_id game) mockPredictions,
            find_first (\<lambda>m. m_game_id m = g_id game) mockMarketSignals) of
        (Some p, Some ms) \<Rightarrow>
          Inr (Game.extend game
                 (GameWithPrediction.fields p ms (Some (build_drivers js game p ms))))
      | _ \<Rightarrow> Inl (''Missing data for game '' @ g_id game))"

text \<open>The signals \<open>getKeySignals\<close> derives itself, before padding.\<close>

definition market_signals_of :: "GameWithPrediction \<Rightarrow> string list" where
  "market_signals_of game =
     (if line_movement (marketSignal game) < -10 then [''Line movement against favorite''] else [])
     @ (if public_bet_percentage (marketSignal game) > 75 then [''High public bias detected''] else [])
     @ (if upset_probability (prediction game) > 65 then [''Historical anomaly detected''] else [])"

definition getKeySignals :: "GameWithPrediction \<Rightarrow> string list" where
  "getKeySignals game =
     (case drivers game of
        Some (d # ds) \<Rightarrow> map label (slice0 3 (d # ds))
      | _ \<Rightarrow> slice0 3 (pad_to_three MODEL_CONFIDENCE_HIGH (market_signals_of game)))"

section \<open>Games API service (services/gamesApi.ts)\<close>

text \<open>
  The interface \<open>ApiGame\<close>. Its \<open>status\<close> is required, and it has a \<open>venue\<close> that the
  interface \<open>Game\<close> lacks.
\<close>

record ApiGame =
  api_id :: string
  api_sport :: string
  api_team_favorite :: string
  api_team_underdog :: string
  api_start_time :: string
  api_odds_open :: number
  api_odds_current :: number
  api_status :: GameStatus
  api_isPrimeTime :: "bool option"
  api_spreadOpen :: "number option"
  api_spreadCurrent :: "number option"
  api_totalOpen :: "number option"
  api_totalCurrent :: "number option"
  api_venue :: "string option"
  api_prediction :: Prediction
  api_marketSignal :: MarketSignal
  api_drivers :: "Driver list option"

record GamesApiResponse =
  r_games :: "ApiGame list"
  r_fetched_at :: string
  r_cached :: bool

record FetchGamesResult =
  games :: "GameWithPrediction list"
  fetchedAt :: string
  cached :: bool

definition transformApiGame :: "ApiGame \<Rightarrow> GameWithPrediction" where
  "transformApiGame apiGame =
     \<lparr> g_id = api_id apiGame,
       sport = api_sport apiGame,
       team_favorite = api_team_favorite apiGame,
       team_underdog = api_team_underdog apiGame,
       start_time = api_start_time apiGame,
       odds_open = api_odds_open apiGame,
       odds_current = api_odds_current apiGame,
       status = Some (api_status apiGame),
       isPrimeTime = api_isPrimeTime apiGame,
       spreadOpen = api_spreadOpen apiGame,
       spreadCurrent = api_spreadCurrent apiGame,
       totalOpen = api_totalOpen apiGame,
       totalCurrent = api_totalCurrent apiGame,
       prediction =
         \<lparr> p_id = p_id (api_prediction apiGame),
           p_game_id = p_game_id (api_prediction apiGame),
           upset_probability = upset_probability (api_prediction apiGame),
           model_version = model_version (api_prediction apiGame),
           confidence_band = confidence_band (api_prediction apiGame),
           p_created_at = p_created_at (api_prediction apiGame) \<rparr>,
       marketSignal =
         \<lparr> m_id = m_id (api_marketSignal apiGame),
           m_game_id = m_game_id (api_marketSignal apiGame),
           public_bet_percentage = public_bet_percentage (api_marketSignal apiGame),
           line_movement = line_movement (api_marketSignal apiGame),
           sentiment_score = sentiment_score (api_marketSignal apiGame),
           m_created_at = m_created_at (api_marketSignal apiGame) \<rparr>,
       drivers = api_drivers apiGame \<rparr>"

text \<open>
  \<open>fetchGames\<close> awaits \<open>api.get('/games', { sport })\<close>; a rejection of that promise
  rejects \<open>fetchGames\<close> with the same value. \<open>api_get\<close> is the client's \<open>get\<close>, given
  the endpoint and the query parameters; \<open>None\<close> for \<open>sport\<close> is the omitted argument,
  which defaults to \<open>'NFL'\<close>.
\<close>

definition fetchGames ::
  "(string \<Rightarrow> (string \<times> string) list \<Rightarrow> 'e + GamesApiResponse) \<Rightarrow> Sport option \<Rightarrow> 'e + FetchGamesResult" where
  "fetchGames api_get sport_arg =
     (let requested = (case sport_arg of None \<Rightarrow> NFL | Some s \<Rightarrow> s) in
      case api_get ''/games'' [(''sport'', sport_name requested)] of
        Inl err \<Rightarrow> Inl err
      | Inr response \<Rightarrow>
          Inr \<lparr> games = map transformApiGame (r_games response),
                fetchedAt = r_fetched_at response,
                cached = r_cached response \<rparr>)"

text \<open>
  What \<open>transformApiGame\<close> keeps determines the \<open>ApiGame\<close> once its \<open>venue\<close> is
  supplied: the inverse used to state that nothing else is lost.
\<close>

definition untransform :: "GameWithPrediction \<Rightarrow> string option \<Rightarrow> ApiGame option" where
  "untransform g venue =
     (case status g of
        None \<Rightarrow> None
      | Some st \<Rightarrow>
          Some \<lparr> api_id = g_id g, api_sport = sport g,
                 api_team_favorite = team_favorite g, api_team_underdog = team_underdog g,
                 api_start_time = start_time g,
                 api_odds_open = odds_open g, api_odds_current = odds_current g,
                 api_status = st, api_isPrimeTime = isPrimeTime g,
                 api_spreadOpen = spreadOpen g, api_spreadCurrent = spreadCurrent g,
                 api_totalOpen = totalOpen g, api_totalCurrent = totalCurrent g,
                 api_venue = venue,
                 api_prediction = prediction g, api_marketSignal = marketSignal g,
                 api_drivers = drivers g \<rparr>)"

section \<open>Filtering the games list (context/GamesContext.tsx)\<close>

text \<open>
  A \<open>Date\<close> as the filter reads it: \<open>getDate()\<close>, \<open>getMonth()\<close> and \<open>getFullYear()\<close>
  in local time, or \<open>None\<close> for an Invalid Date, whose getters all return \<open>NaN\<close>.
\<close>

type_synonym jsdate = "(int \<times> int \<times> int) option"

record FilterState =
  filter_sport :: "Sport option"
  filter_date :: "jsdate option"
  confidenceThreshold :: number
  minUpsPct :: "number option"
  onlyPrimeTime :: "bool option"
  onlyNationalTv :: "bool option"
  onlyHighStakes :: "bool option"
  onlyMarquee :: "bool option"
  onlyFeatured :: "bool option"
  onlyTopGames :: "bool option"

text \<open>
  \<open>[...xs].sort((a, b) => b.prediction.upset_probability - a.prediction.upset_probability)\<close>:
  a stable sort, highest upset probability first.
\<close>

definition sort_by_ups_desc :: "GameWithPrediction list \<Rightarrow> GameWithPrediction list" where
  "sort_by_ups_desc gs = sort_key (\<lambda>g. - upset_probability (prediction g)) gs"

text \<open>\<open>xs[i]\<close>, which is \<open>undefined\<close> out of range.\<close>

definition at_index :: "'a list \<Rightarrow> nat \<Rightarrow> 'a option" where
  "at_index xs i = (if i < length xs then Some (xs ! i) else None)"

text \<open>
  The proxy threshold shared by the five per-sport switches:
  \<open>sorted[Math.floor(sorted.length * 0.3)]?.prediction.upset_probability ?? 0\<close> over
  the games of one sport. \<open>Math.floor(n * 0.3)\<close> is \<open>3 * n div 10\<close> for every list
  length that fits in memory.
\<close>

definition top30_threshold :: "string \<Rightarrow> GameWithPrediction list \<Rightarrow> number" where
  "top30_threshold s all_games =
     (let sorted = sort_by_ups_desc (filter (\<lambda>g. sport g = s) all_games) in
      case at_index sorted (3 * length sorted div 10) of
        Some g \<Rightarrow> upset_probability (prediction g)
      | None \<Rightarrow> 0)"

text \<open>
  The date test: the three getters of the game's date and of the filter's date are
  compared with \<open>!==\<close>, and \<open>NaN !== x\<close> holds for every \<open>x\<close>.
\<close>

definition date_differs :: "jsdate \<Rightarrow> jsdate \<Rightarrow> bool" where
  "date_differs gameDate filterDate =
     (case (gameDate, filterDate) of
        (Some a, Some b) \<Rightarrow> a \<noteq> b
      | _ \<Rightarrow> True)"

definition ups :: "GameWithPrediction \<Rightarrow> number" where
  "ups g = upset_probability (prediction g)"

text \<open>
  The callback of \<open>games.filter\<close> in src/frontend; \<open>toDate\<close> is
  \<open>new Date(game.start_time)\<close> read through the three getters.
\<close>

definition keep_game ::
  "(string \<Rightarrow> jsdate) \<Rightarrow> GameWithPrediction list \<Rightarrow> FilterState \<Rightarrow> GameWithPrediction \<Rightarrow> bool" where
  "keep_game toDate all_games flt game =
     (if (case filter_sport flt of Some s \<Rightarrow> sport game \<noteq> sport_name s | None \<Rightarrow> False)
        then False
      else if (case minUpsPct flt of
                 Some m \<Rightarrow> ups game < m
               | None \<Rightarrow> ups game < confidenceThreshold flt)
        then False
      else if sport game = ''NFL'' \<and> onlyPrimeTime flt = Some True \<and> isPrimeTime game \<noteq> Some True
        then False
      else if sport game = ''NBA'' \<and> onlyNationalTv flt = Some True
              \<and> ups game < top30_threshold ''NBA'' all_games
        then False
      else if sport game = ''MLB'' \<and> onlyHighStakes flt = Some True
              \<and> ups game < top30_threshold ''MLB'' all_games
        then False
      else if sport game = ''NHL'' \<and> onlyMarquee flt = Some True
              \<and> ups game < top30_threshold ''NHL'' all_games
        then False
      else if sport game = ''Soccer'' \<and> onlyFeatured flt = Some True
              \<and> ups game < top30_threshold ''Soccer'' all_games
        then False
      else if sport game = ''CFB'' \<and> onlyTopGames flt = Some True
              \<and> ups game < top30_threshold ''CFB'' all_games
        then False
      else if (case filter_date flt of
                 Some fd \<Rightarrow> date_differs (toDate (start_time game)) fd
               | None \<Rightarrow> False)
        then False
      else True)"

definition filteredGames ::
  "(string \<Rightarrow> jsdate) \<Rightarrow> GameWithPrediction list \<Rightarrow> FilterState \<Rightarrow> GameWithPrediction list" where
  "filteredGames toDate all_games flt = filter (keep_game toDate all_games flt) all_games"

text \<open>
  The callback in src/upsetiq/frontend: \<open>minUpsPct\<close> is consulted for NFL games only,
  and there are no switches besides the prime-time one.
\<close>

definition keep_game_upsetiq ::
  "(string \<Rightarrow> jsdate) \<Rightarrow> FilterState \<Rightarrow> GameWithPrediction \<Rightarrow> bool" where
  "keep_game_upsetiq toDate flt game =
     (if (case filter_sport flt of Some s \<Rightarrow> sport game \<noteq> sport_name s | None \<Rightarrow> False)
        then False
      else if (case (if sport game = ''NFL'' then minUpsPct flt else None) of
                 Some m \<Rightarrow> ups game < m
               | None \<Rightarrow> ups game < confidenceThreshold flt)
        then False
      else if sport game = ''NFL'' \<and> onlyPrimeTime flt = Some True \<and> isPrimeTime game \<noteq> Some True
        then False
      else if (case filter_date flt of
                 Some fd \<Rightarrow> date_differs (toDate (start_time game)) fd
               | None \<Rightarrow> False)
        then False
      else True)"

definition filteredGames_upsetiq ::
  "(string \<Rightarrow> jsdate) \<Rightarrow> GameWithPrediction list \<Rightarrow> FilterState \<Rightarrow> GameWithPrediction list" where
  "filteredGames_upsetiq toDate all_games flt = filter (keep_game_upsetiq toDate flt) all_games"

text \<open>The minimum each copy applies to a game.\<close>

definition applicable_min :: "FilterState \<Rightarrow> number" where
  "applicable_min flt = (case minUpsPct flt of Some m \<Rightarrow> m | None \<Rightarrow> confidenceThreshold flt)"

definition applicable_min_upsetiq :: "FilterState \<Rightarrow> GameWithPrediction \<Rightarrow> number" where
  "applicable_min_upsetiq flt game =
     (if sport game = ''NFL'' then applicable_min flt else confidenceThreshold flt)"

section \<open>Grouping games by day (utils/sportUtils.ts)\<close>

record DayGroup =
  dg_label :: string
  dg_games :: "GameWithPrediction list"

text \<open>
  The \<open>Map\<close> from day label to games keeps its keys in insertion order: an association
  list. \<open>byDay.get(label) ?? []\<close> and \<open>byDay.set(label, arr)\<close>:
\<close>

fun map_get_or_empty :: "(string \<times> 'a list) list \<Rightarrow> string \<Rightarrow> 'a list" where
  "map_get_or_empty [] k = []"
| "map_get_or_empty ((k', v) # kvs) k = (if k' = k then v else map_get_or_empty kvs k)"

fun map_set :: "(string \<times> 'a list) list \<Rightarrow> string \<Rightarrow> 'a list \<Rightarrow> (string \<times> 'a list) list" where
  "map_set [] k v = [(k, v)]"
| "map_set ((k', v') # kvs) k v = (if k' = k then (k, v) # kvs else (k', v') # map_set kvs k v)"

text \<open>
  The \<open>for\<close> loop of \<open>groupGamesByDay\<close>. \<open>dayLabel\<close> is
  \<open>new Date(start_time).toLocaleDateString(undefined, {weekday, month, day})\<close>, which
  depends on the device's locale and time zone.
\<close>

fun collect_by_day ::
  "(string \<Rightarrow> string) \<Rightarrow> Sport \<Rightarrow> GameWithPrediction list
     \<Rightarrow> (string \<times> GameWithPrediction list) list \<Rightarrow> (string \<times> GameWithPrediction list) list" where
  "collect_by_day dayLabel s [] byDay = byDay"
| "collect_by_day dayLabel s (g # gs) byDay =
     (if sport g \<noteq> sport_name s then collect_by_day dayLabel s gs byDay
      else
        (let lbl = dayLabel (start_time g);
             arr = map_get_or_empty byDay lbl @ [g]
         in collect_by_day dayLabel s gs (map_set byDay lbl arr)))"

text \<open>
  \<open>new Date(group.games[0]?.start_time ?? 0).getTime()\<close>, with \<open>getTime\<close> standing for
  the parse of a start time: \<open>None\<close> is the \<open>NaN\<close> of an Invalid Date.
\<close>

definition first_game_time :: "(string \<Rightarrow> int option) \<Rightarrow> DayGroup \<Rightarrow> int option" where
  "first_game_time getTime grp =
     (case dg_games grp of [] \<Rightarrow> Some 0 | g # _ \<Rightarrow> getTime (start_time g))"

text \<open>
  The comparator \<open>(a, b) => ta - tb\<close> of the groups; a \<open>NaN\<close> result counts as 0 in
  \<open>Array.prototype.sort\<close>.
\<close>

definition compare_groups :: "(string \<Rightarrow> int option) \<Rightarrow> DayGroup \<Rightarrow> DayGroup \<Rightarrow> int" where
  "compare_groups getTime a b =
     (case (first_game_time getTime a, first_game_time getTime b) of
        (Some ta, Some tb) \<Rightarrow> ta - tb
      | _ \<Rightarrow> 0)"

text \<open>
  \<open>Array.prototype.sort\<close> with a comparator, as a stable insertion sort. Where the
  comparator is no consistent ordering, which takes an Invalid Date here, the language
  leaves the order to the implementation, and this is one of the orders it allows.
\<close>

fun insert_by :: "('a \<Rightarrow> 'a \<Rightarrow> int) \<Rightarrow> 'a \<Rightarrow> 'a list \<Rightarrow> 'a list" where
  "insert_by cmp x [] = [x]"
| "insert_by cmp x (y # ys) = (if cmp x y \<le> 0 then x # y # ys else y # insert_by cmp x ys)"

definition sort_by :: "('a \<Rightarrow> 'a \<Rightarrow> int) \<Rightarrow> 'a list \<Rightarrow> 'a list" where
  "sort_by cmp xs = foldr (insert_by cmp) xs []"

definition groupGamesByDay ::
  "(string \<Rightarrow> string) \<Rightarrow> (string \<Rightarrow> int option) \<Rightarrow> GameWithPrediction list \<Rightarrow> Sport \<Rightarrow> DayGroup list" where
  "groupGamesByDay dayLabel getTime all_games s =
     (let byDay = collect_by_day dayLabel s all_games [];
          groups = map (\<lambda>(lbl, arr). \<lparr>dg_label = lbl, dg_games = sort_by_ups_desc arr\<rparr>) byDay
      in sort_by (compare_groups getTime) groups)"

text \<open>Highest upset probability first.\<close>

definition ups_descending :: "GameWithPrediction list \<Rightarrow> bool" where
  "ups_descending gs = sorted_wrt (\<lambda>a b. ups a \<ge> ups b) gs"

section \<open>Alerts on the device (context/AlertsContext.tsx, services/notifications.ts)\<close>

record Alert =
  a_id :: string
  a_game_id :: string
  a_user_id :: string
  threshold :: number
  triggered :: bool
  a_created_at :: string

text \<open>
  \<open>addAlert\<close> of the alerts context: the new state of \<open>alerts\<close>. \<open>now_ms\<close> is
  \<open>Date.now()\<close> in decimal and \<open>now_iso\<close> is \<open>new Date().toISOString()\<close>.
\<close>

definition addAlert :: "string \<Rightarrow> string \<Rightarrow> Alert list \<Rightarrow> string \<Rightarrow> number \<Rightarrow> Alert list" where
  "addAlert now_ms now_iso prev gameId thr =
     prev @ [\<lparr> a_id = ''alert-'' @ now_ms, a_game_id = gameId, a_user_id = ''current-user'',
               threshold = thr, triggered = False, a_created_at = now_iso \<rparr>]"

definition removeAlert :: "Alert list \<Rightarrow> string \<Rightarrow> Alert list" where
  "removeAlert prev alertId = filter (\<lambda>alert. a_id alert \<noteq> alertId) prev"

definition getAlertsForGame :: "Alert list \<Rightarrow> string \<Rightarrow> Alert list" where
  "getAlertsForGame alerts gameId = filter (\<lambda>alert. a_game_id alert = gameId) alerts"

datatype PermissionStatus = Granted | Denied | Undetermined

text \<open>
  The notification module as the service sees it; \<open>None\<close> is a rejected promise.
\<close>

record NotificationContent =
  n_title :: string
  n_body :: string
  data_alertId :: string
  data_gameId :: string

record Notifications =
  getPermissionsAsync :: "PermissionStatus option"
  requestPermissionsAsync :: "PermissionStatus option"
  scheduleNotificationAsync :: "NotificationContent \<Rightarrow> string option"

definition requestPermissions :: "Notifications \<Rightarrow> bool" where
  "requestPermissions env =
     (case getPermissionsAsync env of
        None \<Rightarrow> False
      | Some existingStatus \<Rightarrow>
          if existingStatus \<noteq> Granted then
            (case requestPermissionsAsync env of
               None \<Rightarrow> False
             | Some st \<Rightarrow> st = Granted)
          else True)"

record GameInfo =
  favorite :: string
  underdog :: string
  info_ups :: number

definition ALERT_TITLE :: string where
  "ALERT_TITLE = [CHR 0xF0, CHR 0x9F, CHR 0x9A, CHR 0xA8] @ '' Upset Alert Triggered!''"

text \<open>
  \<open>scheduleAlertNotification\<close>: the notification id, or \<open>None\<close> for \<open>null\<close>.
  \<open>show_number\<close> renders a number inside the template string.
\<close>

definition scheduleAlertNotification ::
  "Notifications \<Rightarrow> (number \<Rightarrow> string) \<Rightarrow> Alert \<Rightarrow> GameInfo \<Rightarrow> string option" where
  "scheduleAlertNotification env show_number alert gameInfo =
     (if \<not> requestPermissions env then None
      else scheduleNotificationAsync env
             \<lparr> n_title = ALERT_TITLE,
               n_body = underdog gameInfo @ '' has '' @ show_number (info_ups gameInfo)
                        @ ''% upset probability vs '' @ favorite gameInfo,
               data_alertId = a_id alert,
               data_gameId = a_game_id alert \<rparr>)"

text \<open>
  The test inside the loop of \<open>checkAlerts\<close>:
  \<open>!alert.triggered\<close> and \<open>currentUps && currentUps >= alert.threshold\<close>, where an
  \<open>undefined\<close> and a zero score are both falsy.
\<close>

definition fires :: "Alert \<Rightarrow> number option \<Rightarrow> bool" where
  "fires alert currentUps =
     (\<not> triggered alert
      \<and> (case currentUps of
            None \<Rightarrow> False
          | Some u \<Rightarrow> u \<noteq> 0 \<and> u \<ge> threshold alert))"


text \<open>
  \<open>renderAlert\<close> of the alerts screen: the text of the pill and the risk level it is
  drawn with, from the current score of the alert's game alone.
\<close>

datatype RiskLevel = high | medium | low

definition riskLevel :: "number \<Rightarrow> RiskLevel" where
  "riskLevel current = (if current > 65 then high else if current > 50 then medium else low)"

definition isTriggered :: "Alert \<Rightarrow> number \<Rightarrow> bool" where
  "isTriggered item current = (current \<ge> threshold item)"

definition pill_text :: "Alert \<Rightarrow> number \<Rightarrow> string" where
  "pill_text item current = (if isTriggered item current then ''TRIGGERED'' else ''WATCHING'')"


section \<open>API client (services/api.ts)\<close>

text \<open>
  The object the client throws. \<open>err_status\<close> is the field \<open>status\<close>.
\<close>

record ApiError =
  message :: string
  err_status :: nat
  detail :: "string option"

text \<open>
  An exception of the platform (\<open>TypeError\<close>, \<open>SyntaxError\<close>, \<open>AbortError\<close>): it has a
  \<open>name\<close> and a \<open>message\<close> and no \<open>status\<close> property.
\<close>

record raw_error =
  err_name :: string
  err_message :: string

text \<open>What a promise of the client is rejected with.\<close>

datatype thrown = ApiErr ApiError | RawErr raw_error

datatype Method = GET | POST

record Request =
  req_url :: string
  req_query :: "(string \<times> string) list"
  req_method :: Method
  req_body :: "string option"

text \<open>
  A \<open>Response\<close>: \<open>json\<close> is what \<open>response.json()\<close> settles to, a rejection on the
  left, the parsed body (of type \<open>T\<close>) on the right.
\<close>

record 'a Response =
  ok :: bool
  resp_status :: nat
  json :: "raw_error + 'a"

text \<open>
  The platform: \<open>new URL(s)\<close> (a \<open>TypeError\<close> on the left when \<open>s\<close> is no absolute
  URL, its \<open>href\<close> otherwise), \<open>fetch\<close>, the property read \<open>body.detail\<close> on a parsed
  body (a \<open>TypeError\<close> when the body is \<open>null\<close>), and for the data of a POST its
  truthiness and \<open>JSON.stringify\<close>.
\<close>

record ('a, 'b) Platform =
  new_URL :: "string \<Rightarrow> raw_error + string"
  fetch :: "Request \<Rightarrow> raw_error + 'a Response"
  read_detail :: "'a \<Rightarrow> raw_error + string option"
  truthy :: "'b \<Rightarrow> bool"
  stringify :: "'b \<Rightarrow> raw_error + string option"

definition NETWORK_ERROR :: string where
  "NETWORK_ERROR = ''Network error - please check your connection''"

text \<open>A natural number in decimal, for \<open>`HTTP ${response.status}`\<close>.\<close>

function show_nat :: "nat \<Rightarrow> string" where
  "show_nat n =
     (if n < 10 then [char_of (48 + n)]
      else show_nat (n div 10) @ [char_of (48 + n mod 10)])"
  by pat_completeness auto
termination
  by (relation "measure id") auto

declare show_nat.simps [simp del]

text \<open>
  The non-ok branch inside \<open>try\<close>:
  \<open>errorData = await response.json().catch(() => ({}))\<close>, then the \<open>throw\<close> of an
  \<open>ApiError\<close>; reading \<open>errorData.detail\<close> can itself throw.
\<close>

definition non_ok_thrown :: "('a, 'b) Platform \<Rightarrow> 'a Response \<Rightarrow> thrown" where
  "non_ok_thrown env response =
     (case (case json response of
              Inl rejected \<Rightarrow> Inr None
            | Inr errorData \<Rightarrow> read_detail env errorData) of
        Inl type_error \<Rightarrow> RawErr type_error
      | Inr d \<Rightarrow>
          ApiErr \<lparr> message =
                     (case d of
                        Some s \<Rightarrow> if s \<noteq> [] then s else ''HTTP '' @ show_nat (resp_status response)
                      | None \<Rightarrow> ''HTTP '' @ show_nat (resp_status response)),
                   err_status = resp_status response,
                   detail = d \<rparr>)"

text \<open>
  How the \<open>try\<close> block ends: with a value thrown inside it, or with
  \<open>return response.json()\<close>, which hands the promise out of the block without awaiting it.
\<close>

datatype 'a try_end = Throws thrown | Returns "raw_error + 'a"

definition try_fetch :: "('a, 'b) Platform \<Rightarrow> Request \<Rightarrow> 'a try_end" where
  "try_fetch env request =
     (case fetch env request of
        Inl rejected \<Rightarrow> Throws (RawErr rejected)
      | Inr response \<Rightarrow>
          if \<not> ok response then Throws (non_ok_thrown env response)
          else Returns (json response))"

text \<open>
  The \<open>catch\<close> block: \<open>if (error.status) throw error\<close>, where a status of 0 and a
  missing status are falsy; everything else becomes the network error.
\<close>

definition on_catch :: "thrown \<Rightarrow> thrown" where
  "on_catch error =
     (case error of
        ApiErr e \<Rightarrow>
          if err_status e \<noteq> 0 then ApiErr e
          else ApiErr \<lparr>message = NETWORK_ERROR, err_status = 0, detail = Some (message e)\<rparr>
      | RawErr r \<Rightarrow>
          ApiErr \<lparr>message = NETWORK_ERROR, err_status = 0, detail = Some (err_message r)\<rparr>)"

text \<open>
  The settlement of the promise an \<open>async\<close> method returns: a value thrown in \<open>try\<close>
  goes through \<open>catch\<close>; a returned promise settles the method's promise as it is.
\<close>

definition settle :: "'a try_end \<Rightarrow> thrown + 'a" where
  "settle e =
     (case e of
        Throws error \<Rightarrow> Inl (on_catch error)
      | Returns promise \<Rightarrow>
          (case promise of Inl rejected \<Rightarrow> Inl (RawErr rejected) | Inr parsed \<Rightarrow> Inr parsed))"

text \<open>
  \<open>ApiClient.get\<close>. The URL is built before the \<open>try\<close> block; \<open>None\<close> for \<open>params\<close>
  is the omitted argument.
\<close>

definition get ::
  "('a, 'b) Platform \<Rightarrow> string \<Rightarrow> string \<Rightarrow> (string \<times> string) list option \<Rightarrow> thrown + 'a" where
  "get env baseUrl endpoint params =
     (case new_URL env (baseUrl @ endpoint) of
        Inl type_error \<Rightarrow> Inl (RawErr type_error)
      | Inr href \<Rightarrow>
          settle (try_fetch env
            \<lparr> req_url = href,
              req_query = (case params of None \<Rightarrow> [] | Some entries \<Rightarrow> entries),
              req_method = GET,
              req_body = None \<rparr>))"

text \<open>
  \<open>ApiClient.post\<close>: the body is \<open>data ? JSON.stringify(data) : undefined\<close>, computed
  inside \<open>try\<close>.
\<close>

definition post ::
  "('a, 'b) Platform \<Rightarrow> string \<Rightarrow> string \<Rightarrow> 'b option \<Rightarrow> thrown + 'a" where
  "post env baseUrl endpoint data =
     settle
       (case (case data of
                None \<Rightarrow> Inr None
              | Some d \<Rightarrow> if truthy env d then stringify env d else Inr None) of
          Inl stringify_error \<Rightarrow> Throws (RawErr stringify_error)
        | Inr body \<Rightarrow>
            try_fetch env
              \<lparr> req_url = baseUrl @ endpoint, req_query = [], req_method = POST, req_body = body \<rparr>)"

definition healthCheck :: "('a, 'b) Platform \<Rightarrow> string \<Rightarrow> thrown + 'a" where
  "healthCheck env baseUrl = get env baseUrl ''/health'' None"

text \<open>Whether a thrown value is an \<open>ApiError\<close>, which carries a numeric status.\<close>

definition is_api_error :: "thrown \<Rightarrow> bool" where
  "is_api_error t = (case t of ApiErr e \<Rightarrow> True | RawErr r \<Rightarrow> False)"

section \<open>Job scheduler (spec 4.1, table \<open>pipeline_runs\<close>)\<close>

text \<open>
  The rows of \<open>pipeline_runs\<close> as the migration declares them (the columns the scheduler
  contract speaks of); \<open>status\<close> is restricted by the table's CHECK to these four values.
\<close>

datatype RunStatus = Running | RunCompleted | RunFailed | Skipped

record JobRun =
  job_name :: string
  run_status :: RunStatus
  started_at :: nat
  completed_at :: "nat option"
  records_processed :: nat
  records_created :: nat
  records_updated :: nat
  error_message :: "string option"

text \<open>
  Modelled from the spec: the scheduler itself (services/pipeline/scheduler.py) is not
  among the sources. Its state is the \<open>pipeline_runs\<close> table, in insertion order, and
  the handler invocations in progress, one job name per invocation. Each event below is
  one atomic step of the scheduler; jobs interleave at the granularity of these steps.
\<close>

record Scheduler =
  pipeline_runs :: "JobRun list"
  executing :: "string list"

text \<open>
  Modelled from the spec: what a handler reports when it ends, the counts on success,
  the captured error and the counts reported before failing otherwise.
\<close>

datatype HandlerResult = Succeeded nat nat nat | Raised string nat nat nat

datatype SchedulerError = AlreadyRunning

text \<open>
  Modelled from the spec: "checks whether a JobRun for that job is currently running".
\<close>

definition is_running :: "Scheduler \<Rightarrow> string \<Rightarrow> bool" where
  "is_running s job =
     list_ex (\<lambda>r. job_name r = job \<and> run_status r = Running) (pipeline_runs s)"

text \<open>
  Modelled from the spec: a JobRun is "created at job start", or recorded as skipped at
  once; its counts start at zero.
\<close>

definition new_run :: "string \<Rightarrow> RunStatus \<Rightarrow> nat \<Rightarrow> JobRun" where
  "new_run job st now =
     \<lparr> job_name = job, run_status = st, started_at = now,
       completed_at = (if st = Running then None else Some now),
       records_processed = 0, records_created = 0, records_updated = 0,
       error_message = None \<rparr>"

text \<open>
  Modelled from the spec: "each execution creates a JobRun (running), invokes the
  handler".
\<close>

definition start_run :: "Scheduler \<Rightarrow> string \<Rightarrow> nat \<Rightarrow> Scheduler" where
  "start_run s job now =
     s\<lparr> pipeline_runs := pipeline_runs s @ [new_run job Running now],
        executing := job # executing s \<rparr>"

text \<open>
  Modelled from the spec: a cadence tick. If a JobRun for the job is running, the tick
  is skipped and a \<open>skipped\<close> JobRun recorded; nothing is queued.
\<close>

definition tick :: "Scheduler \<Rightarrow> string \<Rightarrow> nat \<Rightarrow> Scheduler" where
  "tick s job now =
     (if is_running s job
      then s\<lparr> pipeline_runs := pipeline_runs s @ [new_run job Skipped now] \<rparr>
      else start_run s job now)"

text \<open>
  Modelled from the spec: \<open>run_now\<close>, the manual trigger, which fails with
  \<open>AlreadyRunning\<close> if a run for that job is in progress.
\<close>

definition run_now :: "Scheduler \<Rightarrow> string \<Rightarrow> nat \<Rightarrow> SchedulerError + Scheduler" where
  "run_now s job now =
     (if is_running s job then Inl AlreadyRunning else Inr (start_run s job now))"

text \<open>
  Modelled from the spec: the JobRun is finalized as \<open>completed\<close> with the counts, or as
  \<open>failed\<close> with the captured error.
\<close>

definition finalize_run :: "nat \<Rightarrow> HandlerResult \<Rightarrow> JobRun \<Rightarrow> JobRun" where
  "finalize_run now res r =
     (case res of
        Succeeded p c u \<Rightarrow>
          r\<lparr> run_status := RunCompleted, completed_at := Some now,
             records_processed := p, records_created := c, records_updated := u \<rparr>
      | Raised err p c u \<Rightarrow>
          r\<lparr> run_status := RunFailed, completed_at := Some now,
             records_processed := p, records_created := c, records_updated := u,
             error_message := Some err \<rparr>)"

text \<open>
  Modelled from the spec: the end of a handler invocation of \<open>job\<close> (its return, its
  exception, or its cancellation and the staleness timeout, both of which finalize the
  run as \<open>failed\<close>). There is nothing to end when no invocation is in progress.
\<close>

definition handler_ended :: "Scheduler \<Rightarrow> string \<Rightarrow> nat \<Rightarrow> HandlerResult \<Rightarrow> Scheduler" where
  "handler_ended s job now res =
     (if job \<in> set (executing s)
      then s\<lparr> pipeline_runs :=
                 map (\<lambda>r. if job_name r = job \<and> run_status r = Running
                           then finalize_run now res r else r)
                     (pipeline_runs s),
               executing := remove1 job (executing s) \<rparr>
      else s)"

datatype SchedulerEvent =
    Tick string nat
  | RunNow string nat
  | HandlerEnded string nat HandlerResult

text \<open>
  Modelled from the spec: one step of the scheduler; a \<open>run_now\<close> that fails leaves the
  state as it was.
\<close>

fun scheduler_step :: "Scheduler \<Rightarrow> SchedulerEvent \<Rightarrow> Scheduler" where
  "scheduler_step s (Tick job now) = tick s job now"
| "scheduler_step s (RunNow job now) =
     (case run_now s job now of Inl err \<Rightarrow> s | Inr s' \<Rightarrow> s')"
| "scheduler_step s (HandlerEnded job now res) = handler_ended s job now res"

text \<open>
  Modelled from the spec: the scheduler starts with no JobRun and no handler executing,
  and takes its events one after the other.
\<close>

definition scheduler_init :: Scheduler where
  "scheduler_init = \<lparr> pipeline_runs = [], executing = [] \<rparr>"

definition scheduler_run :: "SchedulerEvent list \<Rightarrow> Scheduler" where
  "scheduler_run events = foldl scheduler_step scheduler_init events"

text \<open>The number of \<open>running\<close> JobRuns of a job, and of its handler invocations in progress.\<close>

definition running_runs :: "Scheduler \<Rightarrow> string \<Rightarrow> nat" where
  "running_runs s job =
     length (filter (\<lambda>r. job_name r = job \<and> run_status r = Running) (pipeline_runs s))"

definition invocations :: "Scheduler \<Rightarrow> string \<Rightarrow> nat" where
  "invocations s job = count_list (executing s) job"

text \<open>The non-overlap invariant for one job: as many \<open>running\<close> rows as invocations, at most one.\<close>

definition job_inv :: "Scheduler \<Rightarrow> string \<Rightarrow> bool" where
  "job_inv s j = (running_runs s j = invocations s j \<and> running_runs s j \<le> 1)"

section \<open>Alert engine (spec 4.4, table \<open>alert_queue\<close>)\<close>

text \<open>
  The values the CHECK constraints of \<open>alert_queue\<close> admit for \<open>alert_type\<close> and
  \<open>status\<close>, and the columns of the table that the engine's contract speaks of.
\<close>

datatype AlertType =
  ups_threshold | injury_update | odds_movement | sentiment_shift | game_starting | upset_occurred

datatype AlertStatus = Pending | Sent | Delivered | Failed | Expired

text \<open>
  Modelled from the spec: the engine (services/pipeline/alert_engine.py) is not among the
  sources. \<open>attempts\<close> is no column of the table: it counts how often the alert was
  handed to the delivery sink, so that "no further delivery attempt" can be stated.
  Times are seconds on one clock.
\<close>

record QueuedAlert =
  q_id :: nat
  q_user_id :: "string option"
  q_game_id :: string
  alert_type :: AlertType
  ups_score :: number
  previous_ups :: "number option"
  q_threshold :: "number option"
  q_status :: AlertStatus
  sent_at :: "nat option"
  delivered_at :: "nat option"
  retry_count :: nat
  max_retries :: nat
  priority :: nat
  expires_at :: "nat option"
  q_created_at :: nat
  attempts :: nat

text \<open>
  Modelled from the spec: a qualifying event, as the evaluation of a new Prediction
  against the subscriptions produces it, with the score and the score of the prior
  Prediction.
\<close>

record AlertEvent =
  ev_user_id :: "string option"
  ev_game_id :: string
  ev_alert_type :: AlertType
  ev_ups_score :: number
  ev_previous_ups :: "number option"
  ev_threshold :: "number option"
  ev_priority :: nat
  ev_max_retries :: nat
  ev_expires_at :: "nat option"

text \<open>
  Modelled from the spec: "once status reaches delivered or expired it is terminal".
\<close>

definition terminal :: "AlertStatus \<Rightarrow> bool" where
  "terminal st = (st = Delivered \<or> st = Expired)"

text \<open>
  Modelled from the spec: the target of the deduplication invariant,
  (user_id, game_id, alert_type), of an alert and of an event.
\<close>

definition alert_key :: "QueuedAlert \<Rightarrow> string option \<times> string \<times> AlertType" where
  "alert_key a = (q_user_id a, q_game_id a, alert_type a)"

definition event_key :: "AlertEvent \<Rightarrow> string option \<times> string \<times> AlertType" where
  "event_key ev = (ev_user_id ev, ev_game_id ev, ev_alert_type ev)"

text \<open>
  Modelled from the spec: the test of the deduplicating upsert, an alert for the same
  (user_id, game_id, alert_type) that has not reached a terminal state.
\<close>

definition open_for :: "AlertEvent \<Rightarrow> QueuedAlert \<Rightarrow> bool" where
  "open_for ev a = (alert_key a = event_key ev \<and> \<not> terminal (q_status a))"

text \<open>
  Modelled from the spec: "a new qualifying event updates the existing alert's
  ups_score/previous_ups".
\<close>

definition refresh :: "AlertEvent \<Rightarrow> QueuedAlert \<Rightarrow> QueuedAlert" where
  "refresh ev a = a\<lparr> ups_score := ev_ups_score ev, previous_ups := ev_previous_ups ev \<rparr>"

text \<open>
  Modelled from the spec: a new alert starts \<open>pending\<close>, with no retry made.
\<close>

definition new_alert :: "nat \<Rightarrow> nat \<Rightarrow> AlertEvent \<Rightarrow> QueuedAlert" where
  "new_alert ident now ev =
     \<lparr> q_id = ident, q_user_id = ev_user_id ev, q_game_id = ev_game_id ev,
       alert_type = ev_alert_type ev, ups_score = ev_ups_score ev,
       previous_ups = ev_previous_ups ev, q_threshold = ev_threshold ev,
       q_status = Pending, sent_at = None, delivered_at = None,
       retry_count = 0, max_retries = ev_max_retries ev, priority = ev_priority ev,
       expires_at = ev_expires_at ev, q_created_at = now, attempts = 0 \<rparr>"

text \<open>
  Modelled from the spec: the single conditional upsert of spec 5. The queue is the table
  in insertion order; a new row gets the next free id.
\<close>

definition enqueue :: "nat \<Rightarrow> AlertEvent \<Rightarrow> QueuedAlert list \<Rightarrow> QueuedAlert list" where
  "enqueue now ev queue =
     (if list_ex (open_for ev) queue
      then map (\<lambda>a. if open_for ev a then refresh ev a else a) queue
      else queue @ [new_alert (length queue) now ev])"

text \<open>
  Modelled from the spec: exponential backoff, doubling a configured base delay with
  every retry made.
\<close>

definition backoff :: "nat \<Rightarrow> nat \<Rightarrow> nat" where
  "backoff base_delay n = base_delay * 2 ^ n"

text \<open>
  Modelled from the spec: "\<open>expires_at\<close> has passed", and the backoff counted from the
  last hand-over to the channel.
\<close>

definition past_expiry :: "nat \<Rightarrow> QueuedAlert \<Rightarrow> bool" where
  "past_expiry now a = (case expires_at a of None \<Rightarrow> False | Some t \<Rightarrow> t < now)"

definition backoff_elapsed :: "nat \<Rightarrow> nat \<Rightarrow> QueuedAlert \<Rightarrow> bool" where
  "backoff_elapsed base_delay now a =
     (case sent_at a of
        None \<Rightarrow> True
      | Some t \<Rightarrow> t + backoff base_delay (retry_count a) \<le> now)"

text \<open>
  Modelled from the spec: a pending or failed alert that is due is handed to the channel
  and is \<open>sent\<close>; past \<open>expires_at\<close> it is \<open>expired\<close> instead. Alerts in any other state
  are not dequeued.
\<close>

definition dispatch_one :: "nat \<Rightarrow> nat \<Rightarrow> QueuedAlert \<Rightarrow> QueuedAlert" where
  "dispatch_one base_delay now a =
     (if q_status a = Pending \<or> q_status a = Failed then
        (if past_expiry now a then a\<lparr> q_status := Expired \<rparr>
         else if backoff_elapsed base_delay now a
           then a\<lparr> q_status := Sent, sent_at := Some now, attempts := attempts a + 1 \<rparr>
         else a)
      else a)"

text \<open>
  Modelled from the spec: the alerts a dispatch hands to the channel, by priority
  descending, then by creation time ascending.
\<close>

definition dequeue_order :: "nat \<Rightarrow> nat \<Rightarrow> QueuedAlert list \<Rightarrow> QueuedAlert list" where
  "dequeue_order base_delay now queue =
     sort_key (\<lambda>a. - int (priority a))
       (sort_key q_created_at
          (filter (\<lambda>a. (q_status a = Pending \<or> q_status a = Failed)
                       \<and> \<not> past_expiry now a \<and> backoff_elapsed base_delay now a) queue))"

text \<open>
  Modelled from the spec: "on transport success mark delivered".
\<close>

definition on_success :: "nat \<Rightarrow> QueuedAlert \<Rightarrow> QueuedAlert" where
  "on_success now a = a\<lparr> q_status := Delivered, delivered_at := Some now \<rparr>"

text \<open>
  Modelled from the spec: the two sentences of spec 4.4 that say when the retries of an
  alert are exhausted. The contract says "on transport failure increment retry_count ...
  and mark expired once retry_count exceeds max_retries or expires_at has passed"; the
  state machine says "failed to pending (retry, while retry_count < max_retries) or
  failed to expired (retries exhausted)". They do not grant the same number of retries,
  and the engine's code is not there to tell which one it follows, so the failure rule
  is a parameter of the model and each sentence is taken literally.
\<close>

datatype FailureRule = ContractSentence | StateMachineLine

text \<open>
  Modelled from the spec: a transport failure. Under either rule the incremented
  \<open>retry_count\<close> is stored. Under the contract sentence the alert expires once the
  count exceeds \<open>max_retries\<close>; under the state-machine line it stays retriable only
  while the count is below \<open>max_retries\<close>.
\<close>

definition on_failure :: "FailureRule \<Rightarrow> nat \<Rightarrow> QueuedAlert \<Rightarrow> QueuedAlert" where
  "on_failure rule now a =
     (let n = retry_count a + 1 in
      case rule of
        ContractSentence \<Rightarrow>
          if n > max_retries a \<or> past_expiry now a
          then a\<lparr> q_status := Expired, retry_count := n \<rparr>
          else a\<lparr> q_status := Failed, retry_count := n \<rparr>
      | StateMachineLine \<Rightarrow>
          if n < max_retries a \<and> \<not> past_expiry now a
          then a\<lparr> q_status := Failed, retry_count := n \<rparr>
          else a\<lparr> q_status := Expired, retry_count := n \<rparr>)"

text \<open>
  Modelled from the spec: the channel's answer for a \<open>sent\<close> alert; it has no effect on
  an alert in another state.
\<close>

definition transport_result :: "FailureRule \<Rightarrow> nat \<Rightarrow> bool \<Rightarrow> QueuedAlert \<Rightarrow> QueuedAlert" where
  "transport_result rule now success a =
     (if q_status a = Sent
      then (if success then on_success now a else on_failure rule now a)
      else a)"

datatype EngineEvent =
    Enqueue nat AlertEvent
  | Dispatch nat
  | TransportResult nat nat bool

text \<open>
  Modelled from the spec: one step of the engine on the queue: a qualifying event, a
  dispatch of everything due, or the channel's answer for the alert with the given id.
\<close>

fun engine_step ::
  "FailureRule \<Rightarrow> nat \<Rightarrow> QueuedAlert list \<Rightarrow> EngineEvent \<Rightarrow> QueuedAlert list" where
  "engine_step rule base_delay queue (Enqueue now ev) = enqueue now ev queue"
| "engine_step rule base_delay queue (Dispatch now) = map (dispatch_one base_delay now) queue"
| "engine_step rule base_delay queue (TransportResult now ident success) =
     map (\<lambda>a. if q_id a = ident then transport_result rule now success a else a) queue"

text \<open>
  Modelled from the spec: the queue starts empty.
\<close>

definition engine_run :: "FailureRule \<Rightarrow> nat \<Rightarrow> EngineEvent list \<Rightarrow> QueuedAlert list" where
  "engine_run rule base_delay events = foldl (engine_step rule base_delay) [] events"

text \<open>The alerts of a key that are not terminal, and those that are pending or sent.\<close>

definition open_alerts :: "QueuedAlert list \<Rightarrow> string option \<times> string \<times> AlertType \<Rightarrow> QueuedAlert list" where
  "open_alerts queue k = filter (\<lambda>a. alert_key a = k \<and> \<not> terminal (q_status a)) queue"

definition pending_or_sent :: "QueuedAlert list \<Rightarrow> string option \<times> string \<times> AlertType \<Rightarrow> QueuedAlert list" where
  "pending_or_sent queue k =
     filter (\<lambda>a. alert_key a = k \<and> (q_status a = Pending \<or> q_status a = Sent)) queue"


section \<open>Stored scores (tables \<open>predictions\<close> and \<open>game_features\<close>)\<close>

datatype db_error =
  numeric_overflow | not_null_violation | check_violation | unique_violation | foreign_key_violation

text \<open>
  A value assigned to a \<open>DECIMAL(5, 2)\<close> column: rounded to two decimals, ties away from
  zero, and rejected when the rounded value needs more than three integer digits.
\<close>

definition decimal_5_2 :: "rat \<Rightarrow> db_error + rat" where
  "decimal_5_2 x =
     (let r = sgn x * of_int \<lfloor>\<bar>x\<bar> * 100 + 1 / 2\<rfloor> / 100
      in if \<bar>r\<bar> \<ge> 1000 then Inl numeric_overflow else Inr r)"

text \<open>
  The table \<open>predictions\<close> of the schema: \<open>upset_probability DECIMAL(5, 2) NOT NULL
  CHECK (upset_probability >= 0 AND upset_probability <= 100)\<close>, \<open>confidence_band
  DECIMAL(5, 2)\<close>, \<open>model_version\<close> with default \<open>'v1.0'\<close>, \<open>game_id\<close> referencing
  \<open>games\<close>, and \<open>UNIQUE(game_id, model_version)\<close>.
\<close>

record PredictionRow =
  row_game_id :: string
  row_upset_probability :: rat
  row_confidence_band :: "rat option"
  row_model_version :: string

text \<open>The values of an \<open>INSERT\<close>; \<open>None\<close> is \<open>NULL\<close> or, for the version, the default.\<close>

record PredictionInsert =
  ins_game_id :: string
  ins_upset_probability :: "rat option"
  ins_confidence_band :: "rat option"
  ins_model_version :: "string option"

definition coerce_decimal_5_2 :: "rat option \<Rightarrow> db_error + rat option" where
  "coerce_decimal_5_2 v =
     (case v of
        None \<Rightarrow> Inr None
      | Some x \<Rightarrow> (case decimal_5_2 x of Inl err \<Rightarrow> Inl err | Inr r \<Rightarrow> Inr (Some r)))"

text \<open>
  An \<open>INSERT\<close>: the values are coerced to their column types first; then \<open>NOT NULL\<close>,
  the \<open>CHECK\<close>, the unique index and the foreign key are tested, in that order.
\<close>

definition insert_prediction ::
  "string list \<Rightarrow> PredictionRow list \<Rightarrow> PredictionInsert \<Rightarrow> db_error + PredictionRow list" where
  "insert_prediction game_ids tbl ins =
     (case coerce_decimal_5_2 (ins_upset_probability ins) of
        Inl err \<Rightarrow> Inl err
      | Inr upset \<Rightarrow>
          (case coerce_decimal_5_2 (ins_confidence_band ins) of
             Inl err \<Rightarrow> Inl err
           | Inr band \<Rightarrow>
               (case upset of
                  None \<Rightarrow> Inl not_null_violation
                | Some p \<Rightarrow>
                    (let version = (case ins_model_version ins of None \<Rightarrow> ''v1.0'' | Some v \<Rightarrow> v) in
                     if \<not> (p \<ge> 0 \<and> p \<le> 100) then Inl check_violation
                     else if list_ex (\<lambda>r. row_game_id r = ins_game_id ins
                                          \<and> row_model_version r = version) tbl
                       then Inl unique_violation
                     else if ins_game_id ins \<notin> set game_ids then Inl foreign_key_violation
                     else Inr (tbl @ [\<lparr> row_game_id = ins_game_id ins,
                                        row_upset_probability = p,
                                        row_confidence_band = band,
                                        row_model_version = version \<rparr>])))))"

text \<open>The table after a sequence of inserts, a failed insert leaving it as it was.\<close>

definition predictions_after :: "string list \<Rightarrow> PredictionInsert list \<Rightarrow> PredictionRow list" where
  "predictions_after game_ids inserts =
     foldl (\<lambda>tbl ins. case insert_prediction game_ids tbl ins of Inl err \<Rightarrow> tbl | Inr tbl' \<Rightarrow> tbl')
       [] inserts"

section \<open>Model scorer (spec 4.3)\<close>

text \<open>
  Modelled from the spec: the four independently weighted signal groups.
\<close>

datatype SignalGroup = MarketMovement | InjuryImpact | SentimentContrarian | FormStreak

definition all_groups :: "SignalGroup list" where
  "all_groups = [MarketMovement, InjuryImpact, SentimentContrarian, FormStreak]"

text \<open>
  Modelled from the spec: the scorer (services/pipeline/model_scorer.py) is not among the
  sources. Of a GameFeatures record the scorer needs the mandatory identity fields and,
  per signal group, the group's signed signal, which is absent when the group's features
  are missing or an intermediate it requires cannot be computed.
\<close>

record GameFeatures =
  gf_game_id :: "string option"
  gf_favorite :: "string option"
  gf_underdog :: "string option"
  gf_signal :: "SignalGroup \<Rightarrow> rat option"
  gf_model_version :: string

text \<open>
  Modelled from the spec: the configuration of the scorer, the weight of each group, the
  minimum magnitude for a contribution to be listed as a driver, and the wording of the
  labels.
\<close>

record ScorerConfig =
  weight :: "SignalGroup \<Rightarrow> rat"
  min_driver_magnitude :: rat
  driver_label :: "SignalGroup \<Rightarrow> rat \<Rightarrow> string"
  fallback_label :: string

record ScoredPrediction =
  sp_game_id :: string
  sp_ups_score :: rat
  sp_ups_confidence :: rat
  sp_drivers :: "(string \<times> rat) list"
  sp_model_version :: string

datatype ScoringError = ScoringInputInvalid

text \<open>
  Modelled from the spec: "each group contributes a signed delta from a 50 baseline";
  missing groups "are excluded from the weighted sum".
\<close>

definition contributions :: "ScorerConfig \<Rightarrow> GameFeatures \<Rightarrow> (SignalGroup \<times> rat) list" where
  "contributions cfg f =
     concat (map (\<lambda>g. case gf_signal f g of None \<Rightarrow> [] | Some d \<Rightarrow> [(g, weight cfg g * d)])
               all_groups)"

definition raw_score :: "ScorerConfig \<Rightarrow> GameFeatures \<Rightarrow> rat" where
  "raw_score cfg f = 50 + sum_list (map snd (contributions cfg f))"

text \<open>
  Modelled from the spec: "clamp final score to [0, 100]".
\<close>

definition clamp_score :: "rat \<Rightarrow> rat" where
  "clamp_score x = max 0 (min 100 x)"

text \<open>
  Modelled from the spec: "fewer available signal groups, lower confidence", in
  proportion to the groups available.
\<close>

definition confidence :: "ScorerConfig \<Rightarrow> GameFeatures \<Rightarrow> rat" where
  "confidence cfg f = of_nat (length (contributions cfg f)) / of_nat (length all_groups)"

text \<open>
  Modelled from the spec: the drivers, the contributions above the inclusion threshold
  by descending magnitude, or the generic fallback label when there is none.
\<close>

definition score_drivers :: "ScorerConfig \<Rightarrow> GameFeatures \<Rightarrow> (string \<times> rat) list" where
  "score_drivers cfg f =
     (let ranked = sort_key (\<lambda>(g, c). - \<bar>c\<bar>)
                     (filter (\<lambda>(g, c). \<bar>c\<bar> \<ge> min_driver_magnitude cfg) (contributions cfg f))
      in if ranked = [] then [(fallback_label cfg, 0)]
         else map (\<lambda>(g, c). (driver_label cfg g c, \<bar>c\<bar>)) ranked)"

text \<open>
  Modelled from the spec: \<open>score\<close>, which "raises only if the feature vector lacks the
  mandatory identity fields (game_id, favorite, underdog)".
\<close>

definition score :: "ScorerConfig \<Rightarrow> GameFeatures \<Rightarrow> ScoringError + ScoredPrediction" where
  "score cfg f =
     (case (gf_game_id f, gf_favorite f, gf_underdog f) of
        (Some gid, Some fav, Some dog) \<Rightarrow>
          Inr \<lparr> sp_game_id = gid,
                sp_ups_score = clamp_score (raw_score cfg f),
                sp_ups_confidence = confidence cfg f,
                sp_drivers = score_drivers cfg f,
                sp_model_version = gf_model_version f \<rparr>
      | _ \<Rightarrow> Inl ScoringInputInvalid)"

text \<open>
  Modelled from the spec: the scored Prediction as the row handed to \<open>predictions\<close>.
\<close>

definition prediction_insert :: "ScoredPrediction \<Rightarrow> PredictionInsert" where
  "prediction_insert p =
     \<lparr> ins_game_id = sp_game_id p,
       ins_upset_probability = Some (sp_ups_score p),
       ins_confidence_band = None,
       ins_model_version = Some (sp_model_version p) \<rparr>"

definition in_range :: "rat \<Rightarrow> bool" where
  "in_range x = (0 \<le> x \<and> x \<le> 100)"

text \<open>
  The \<open>upset_probability\<close> of the ten \<open>mockPredictions\<close> of data/mockData.ts, in order:
  the predictions the client shows when the API is not used or fails.
\<close>

definition mock_upset_probabilities :: "rat list" where
  "mock_upset_probabilities = [67, 71, 45, 62, 55, 58, 65, 52, 48, 70]"

section \<open>Concrete inputs\<close>

text \<open>Exact subtraction, and a rendering that is not looked at.\<close>

definition example_number_ops :: NumberOps where
  "example_number_ops = \<lparr> minus = (\<lambda>a b. a - b), toFixed1 = (\<lambda>x. ''1.0'') \<rparr>"

definition example_prediction :: Prediction where
  "example_prediction =
     \<lparr> p_id = ''p1'', p_game_id = ''g1'', upset_probability = 30, model_version = ''v1.0'',
       confidence_band = 5, p_created_at = ''2025-01-05T10:00:00Z'' \<rparr>"

definition example_signal :: MarketSignal where
  "example_signal =
     \<lparr> m_id = ''m1'', m_game_id = ''g1'', public_bet_percentage = 60, line_movement = -3,
       sentiment_score = 0, m_created_at = ''2025-01-05T10:00:00Z'' \<rparr>"

definition example_api_game :: ApiGame where
  "example_api_game =
     \<lparr> api_id = ''g1'', api_sport = ''NBA'',
       api_team_favorite = ''Celtics'', api_team_underdog = ''Pistons'',
       api_start_time = ''2025-01-06T00:30:00Z'',
       api_odds_open = -250, api_odds_current = -220,
       api_status = Upcoming, api_isPrimeTime = None,
       api_spreadOpen = None, api_spreadCurrent = None,
       api_totalOpen = None, api_totalCurrent = None,
       api_venue = Some ''TD Garden'',
       api_prediction = example_prediction, api_marketSignal = example_signal,
       api_drivers = None \<rparr>"

definition example_game :: GameWithPrediction where
  "example_game = transformApiGame example_api_game"

definition example_response :: GamesApiResponse where
  "example_response =
     \<lparr> r_games = [example_api_game], r_fetched_at = ''2025-01-05T10:00:01Z'', r_cached = True \<rparr>"

text \<open>
  The local calendar date of the example game's start on a device in New York
  (\<open>getMonth\<close> counts from 0); any other string is taken not to parse.
\<close>

definition example_toDate :: "string \<Rightarrow> jsdate" where
  "example_toDate s = (if s = ''2025-01-06T00:30:00Z'' then Some (5, 0, 2025) else None)"

text \<open>
  The label of that day in the \<open>en-US\<close> locale, and the start time in milliseconds.
\<close>

definition example_dayLabel :: "string \<Rightarrow> string" where
  "example_dayLabel s = (if s = ''2025-01-06T00:30:00Z'' then ''Sunday, Jan 5'' else ''Invalid Date'')"

definition example_getTime :: "string \<Rightarrow> int option" where
  "example_getTime s = (if s = ''2025-01-06T00:30:00Z'' then Some 1736123400000 else None)"

definition example_filter :: FilterState where
  "example_filter =
     \<lparr> filter_sport = Some NBA, filter_date = None, confidenceThreshold = 0,
       minUpsPct = Some 55, onlyPrimeTime = None, onlyNationalTv = None,
       onlyHighStakes = None, onlyMarquee = None, onlyFeatured = None, onlyTopGames = None \<rparr>"


definition example_game_hot :: GameWithPrediction where
  "example_game_hot =
     example_game\<lparr> g_id := ''g2'',
                    prediction := example_prediction\<lparr>p_id := ''p2'', p_game_id := ''g2'', upset_probability := 70\<rparr> \<rparr>"

text \<open>
  A server (or a proxy in front of it) that answers 200 with a body that is not JSON:
  \<open>response.json()\<close> rejects with a \<open>SyntaxError\<close>.
\<close>

definition html_page_platform :: "(GamesApiResponse, unit) Platform" where
  "html_page_platform =
     \<lparr> new_URL = (\<lambda>s. Inr s),
       fetch = (\<lambda>request.
         Inr \<lparr> ok = True, resp_status = 200,
               json = Inl \<lparr>err_name = ''SyntaxError'', err_message = ''Unexpected token < in JSON''\<rparr> \<rparr>),
       read_detail = (\<lambda>body. Inr None),
       truthy = (\<lambda>d. True),
       stringify = (\<lambda>d. Inr (Some ''{}'')) \<rparr>"

text \<open>A platform on which no string is an absolute URL (an empty base URL, say).\<close>

definition bad_url_platform :: "(GamesApiResponse, unit) Platform" where
  "bad_url_platform =
     html_page_platform
       \<lparr> new_URL := (\<lambda>s. Inl \<lparr>err_name = ''TypeError'', err_message = ''Invalid URL''\<rparr>),
         fetch := (\<lambda>request. Inl \<lparr>err_name = ''TypeError'', err_message = ''Network request failed''\<rparr>) \<rparr>"

definition example_event :: AlertEvent where
  "example_event =
     \<lparr> ev_user_id = Some ''u1'', ev_game_id = ''g1'', ev_alert_type = ups_threshold,
       ev_ups_score = 70, ev_previous_ups = Some 60, ev_threshold = Some 65,
       ev_priority = 5, ev_max_retries = 3, ev_expires_at = None \<rparr>"



text \<open>
  A feature vector with a strong market signal only, and one without any group.
\<close>

definition example_config :: ScorerConfig where
  "example_config =
     \<lparr> weight = (\<lambda>g. 10), min_driver_magnitude = 5,
       driver_label = (\<lambda>g c. ''Signal''), fallback_label = ''Model confidence high'' \<rparr>"

definition example_features :: GameFeatures where
  "example_features =
     \<lparr> gf_game_id = Some ''g1'', gf_favorite = Some ''Celtics'', gf_underdog = Some ''Pistons'',
       gf_signal = (\<lambda>g. if g = MarketMovement then Some 9 else None),
       gf_model_version = ''v2.1'' \<rparr>"

section \<open>Properties of the scorer and of the stored scores\<close>

lemma clamp_in_range: "in_range (clamp_score x)"
  by (simp add: in_range_def clamp_score_def)

lemma decimal_in_range:
  assumes "in_range x"
  shows "\<exists>r. decimal_5_2 x = Inr r \<and> in_range r"
proof -
  from assms have x: "0 \<le> x" "x \<le> 100" by (simp_all add: in_range_def)
  let ?n = "\<lfloor>\<bar>x\<bar> * 100 + 1 / 2\<rfloor>"
  from x have "0 \<le> ?n" by simp
  moreover from x have "\<bar>x\<bar> * 100 + 1 / 2 < 10001" by simp
  then have "?n < 10001" by (simp add: floor_less_iff)
  then have "?n \<le> 10000" by simp
  ultimately have n: "0 \<le> (of_int ?n :: rat)" "(of_int ?n :: rat) \<le> 10000"
    by simp_all
  let ?r = "(of_int ?n :: rat) / 100"
  from n have r: "0 \<le> ?r" "?r \<le> 100" by simp_all
  then have small: "\<not> \<bar>?r\<bar> \<ge> 1000" by simp
  show ?thesis
  proof (cases "x = 0")
    case True
    then show ?thesis by (simp add: decimal_5_2_def in_range_def)
  next
    case False
    with x have "sgn x = 1" by simp
    then have dec: "decimal_5_2 x = Inr ?r"
      using small by (simp add: decimal_5_2_def Let_def)
    from dec r show ?thesis unfolding in_range_def by blast
  qed
qed

lemma insert_prediction_in_range:
  assumes "insert_prediction game_ids tbl ins = Inr tbl'" and "list_all (\<lambda>r. in_range (row_upset_probability r)) tbl"
  shows "list_all (\<lambda>r. in_range (row_upset_probability r)) tbl'"
  using assms
  by (auto simp: insert_prediction_def coerce_decimal_5_2_def in_range_def Let_def
           split: option.splits sum.splits if_splits)

lemma predictions_after_in_range_aux:
  "list_all (\<lambda>r. in_range (row_upset_probability r)) tbl \<Longrightarrow>
   list_all (\<lambda>r. in_range (row_upset_probability r))
     (foldl (\<lambda>tbl ins. case insert_prediction game_ids tbl ins of Inl err \<Rightarrow> tbl | Inr tbl' \<Rightarrow> tbl')
        tbl inserts)"
proof (induction inserts arbitrary: tbl)
  case Nil
  then show ?case by simp
next
  case (Cons ins inserts)
  show ?case
  proof (cases "insert_prediction game_ids tbl ins")
    case (Inl err)
    with Cons show ?thesis by simp
  next
    case (Inr tbl')
    with Cons.prems have "list_all (\<lambda>r. in_range (row_upset_probability r)) tbl'"
      using insert_prediction_in_range by blast
    from Cons.IH [OF this] Inr show ?thesis by simp
  qed
qed

lemma predictions_after_in_range:
  "list_all (\<lambda>r. in_range (row_upset_probability r)) (predictions_after game_ids inserts)"
  unfolding predictions_after_def by (rule predictions_after_in_range_aux) simp

lemma score_total:
  "score cfg f = Inl ScoringInputInvalid \<and> (gf_game_id f = None \<or> gf_favorite f = None \<or> gf_underdog f = None)
   \<or> (\<exists>p. score cfg f = Inr p \<and> sp_ups_score p = clamp_score (raw_score cfg f))"
  by (auto simp: score_def split: option.splits)

lemma scored_insert_accepted:
  assumes "score cfg f = Inr p"
  shows "insert_prediction game_ids tbl (prediction_insert p) \<noteq> Inl check_violation
         \<and> insert_prediction game_ids tbl (prediction_insert p) \<noteq> Inl numeric_overflow
         \<and> insert_prediction game_ids tbl (prediction_insert p) \<noteq> Inl not_null_violation"
proof -
  from assms have "sp_ups_score p = clamp_score (raw_score cfg f)"
    by (auto simp: score_def split: option.splits)
  then have "in_range (sp_ups_score p)" by (simp add: clamp_in_range)
  from decimal_in_range [OF this] obtain r where "decimal_5_2 (sp_ups_score p) = Inr r" "in_range r"
    by blast
  then show ?thesis
    by (simp add: insert_prediction_def coerce_decimal_5_2_def prediction_insert_def in_range_def Let_def)
qed

text \<open>
  Claim C1. The scorer returns a Prediction for every feature vector that has its
  identity fields, whatever groups are missing, and refuses the others; the score of a
  returned Prediction lies in [0, 100], and so does the value a \<open>DECIMAL(5, 2)\<close> column
  stores for it. Every row the \<open>predictions\<close> table ever holds has an
  \<open>upset_probability\<close> in [0, 100], and so has every mock prediction of the client.
\<close>

theorem C1_scores_within_0_100:
  "(score cfg f = Inl ScoringInputInvalid
      \<and> (gf_game_id f = None \<or> gf_favorite f = None \<or> gf_underdog f = None)
    \<or> (\<exists>p stored. score cfg f = Inr p
          \<and> in_range (sp_ups_score p)
          \<and> decimal_5_2 (sp_ups_score p) = Inr stored \<and> in_range stored))
   \<and> list_all (\<lambda>r. in_range (row_upset_probability r)) (predictions_after game_ids inserts)
   \<and> list_all in_range mock_upset_probabilities"
proof (intro conjI)
  from score_total [of cfg f]
  show "score cfg f = Inl ScoringInputInvalid
          \<and> (gf_game_id f = None \<or> gf_favorite f = None \<or> gf_underdog f = None)
        \<or> (\<exists>p stored. score cfg f = Inr p
              \<and> in_range (sp_ups_score p)
              \<and> decimal_5_2 (sp_ups_score p) = Inr stored \<and> in_range stored)"
  proof
    assume "score cfg f = Inl ScoringInputInvalid
              \<and> (gf_game_id f = None \<or> gf_favorite f = None \<or> gf_underdog f = None)"
    then show ?thesis by (rule disjI1)
  next
    assume "\<exists>p. score cfg f = Inr p \<and> sp_ups_score p = clamp_score (raw_score cfg f)"
    then obtain p where p: "score cfg f = Inr p" "sp_ups_score p = clamp_score (raw_score cfg f)"
      by blast
    then have range: "in_range (sp_ups_score p)" by (simp add: clamp_in_range)
    from decimal_in_range [OF range] obtain stored where
      "decimal_5_2 (sp_ups_score p) = Inr stored" "in_range stored" by blast
    with p(1) range show ?thesis by blast
  qed
next
  show "list_all (\<lambda>r. in_range (row_upset_probability r)) (predictions_after game_ids inserts)"
    by (rule predictions_after_in_range)
next
  show "list_all in_range mock_upset_probabilities"
    by (simp add: mock_upset_probabilities_def in_range_def)
qed

theorem C1_scores_witness:
  "map_sum id sp_ups_score (score example_config example_features) = Inr 100
   \<and> map_sum id sp_ups_score (score example_config (example_features\<lparr>gf_signal := (\<lambda>g. None)\<rparr>)) = Inr 50
   \<and> score example_config (example_features\<lparr>gf_game_id := None\<rparr>) = Inl ScoringInputInvalid
   \<and> decimal_5_2 100 = Inr 100
   \<and> map row_upset_probability
         (predictions_after [''g1'']
            [\<lparr>ins_game_id = ''g1'', ins_upset_probability = Some 150,
               ins_confidence_band = None, ins_model_version = None\<rparr>,
             \<lparr>ins_game_id = ''g1'', ins_upset_probability = Some (125 / 2),
               ins_confidence_band = None, ins_model_version = None\<rparr>])
       = [125 / 2]"
proof -
  have a: "map_sum id sp_ups_score (score example_config example_features) = Inr 100"
    by code_simp
  have b: "map_sum id sp_ups_score (score example_config (example_features\<lparr>gf_signal := (\<lambda>g. None)\<rparr>)) = Inr 50"
    by code_simp
  have c: "score example_config (example_features\<lparr>gf_game_id := None\<rparr>) = Inl ScoringInputInvalid"
    by (simp add: score_def example_features_def)
  have d: "decimal_5_2 100 = Inr 100" by code_simp
  have e: "map row_upset_probability
         (predictions_after [''g1'']
            [\<lparr>ins_game_id = ''g1'', ins_upset_probability = Some 150,
               ins_confidence_band = None, ins_model_version = None\<rparr>,
             \<lparr>ins_game_id = ''g1'', ins_upset_probability = Some (125 / 2),
               ins_confidence_band = None, ins_model_version = None\<rparr>])
       = [125 / 2]"
    by code_simp
  from a b c d e
    C1_scores_within_0_100 [of example_config example_features "[''g1'']" "[]"]
  show ?thesis by simp
qed

section \<open>Properties of the alert check\<close>



lemma fires_shown_as_triggered:
  "fires alert (Some current) \<Longrightarrow> pill_text alert current = ''TRIGGERED''"
  by (simp add: fires_def pill_text_def isTriggered_def)




lemma addAlert_appends:
  "length (addAlert now_ms now_iso prev gameId thr) = Suc (length prev)
   \<and> getAlertsForGame (addAlert now_ms now_iso prev gameId thr) gameId
       = getAlertsForGame prev gameId @ [last (addAlert now_ms now_iso prev gameId thr)]"
  by (simp add: addAlert_def getAlertsForGame_def)

section \<open>Properties of the alert engine\<close>












lemma length_open_map:
  assumes "\<And>a. alert_key (f a) = alert_key a"
    and "\<And>a. \<not> terminal (q_status (f a)) \<Longrightarrow> \<not> terminal (q_status a)"
  shows "length (open_alerts (map f q) k) \<le> length (open_alerts q k)"
proof (induction q)
  case Nil
  then show ?case by (simp add: open_alerts_def)
next
  case (Cons a q)
  then show ?case using assms [of a]
    by (auto simp: open_alerts_def)
qed


lemma dispatch_key: "alert_key (dispatch_one b now a) = alert_key a"
  by (simp add: dispatch_one_def alert_key_def)

lemma dispatch_open: "\<not> terminal (q_status (dispatch_one b now a)) \<Longrightarrow> \<not> terminal (q_status a)"
  by (auto simp: dispatch_one_def terminal_def split: if_splits)

lemma transport_key: "alert_key (transport_result rule now succ a) = alert_key a"
  by (cases rule)
     (simp_all add: transport_result_def on_success_def on_failure_def alert_key_def Let_def)

lemma transport_open:
  "\<not> terminal (q_status (transport_result rule now succ a)) \<Longrightarrow> \<not> terminal (q_status a)"
  by (auto simp: transport_result_def terminal_def split: if_splits)

lemma refresh_key: "alert_key (refresh ev a) = alert_key a"
  by (simp add: refresh_def alert_key_def)

lemma refresh_status: "q_status (refresh ev a) = q_status a"
  by (simp add: refresh_def)

lemma open_alerts_none:
  "\<not> list_ex (open_for ev) q \<Longrightarrow> open_alerts q (event_key ev) = []"
  by (auto simp: open_alerts_def open_for_def list_ex_iff filter_empty_conv)

lemma new_alert_key: "alert_key (new_alert i now ev) = event_key ev"
  by (simp add: new_alert_def alert_key_def event_key_def)

lemma open_inv_enqueue:
  assumes "length (open_alerts q k) \<le> 1"
  shows "length (open_alerts (enqueue now ev q) k) \<le> 1"
proof (cases "list_ex (open_for ev) q")
  case True
  have "length (open_alerts (map (\<lambda>a. if open_for ev a then refresh ev a else a) q) k)
          \<le> length (open_alerts q k)"
    by (rule length_open_map) (auto simp: refresh_key refresh_status split: if_splits)
  with True assms show ?thesis by (simp add: enqueue_def)
next
  case False
  show ?thesis
  proof (cases "k = event_key ev")
    case True
    with False open_alerts_none [OF False] show ?thesis
      by (simp add: enqueue_def open_alerts_def)
  next
    case False
    with \<open>\<not> list_ex (open_for ev) q\<close> assms show ?thesis
      by (simp add: enqueue_def open_alerts_def new_alert_key)
  qed
qed

lemma open_inv_step:
  assumes "length (open_alerts q k) \<le> 1"
  shows "length (open_alerts (engine_step rule b q ev) k) \<le> 1"
proof (cases ev)
  case (Enqueue now e)
  with open_inv_enqueue [OF assms, of now e] show ?thesis by simp
next
  case (Dispatch now)
  have "length (open_alerts (map (dispatch_one b now) q) k) \<le> length (open_alerts q k)"
    by (rule length_open_map) (simp_all add: dispatch_key dispatch_open)
  with Dispatch assms show ?thesis by simp
next
  case (TransportResult now ident succ)
  have "length (open_alerts (map (\<lambda>a. if q_id a = ident then transport_result rule now succ a else a) q) k)
          \<le> length (open_alerts q k)"
    by (rule length_open_map) (auto simp: transport_key dest: transport_open split: if_splits)
  with TransportResult assms show ?thesis by simp
qed

lemma open_inv_foldl:
  "length (open_alerts q k) \<le> 1 \<Longrightarrow> length (open_alerts (foldl (engine_step rule b) q evs) k) \<le> 1"
proof (induction evs arbitrary: q)
  case Nil
  then show ?case by simp
next
  case (Cons ev evs)
  from Cons.prems have "length (open_alerts (engine_step rule b q ev) k) \<le> 1" by (rule open_inv_step)
  from Cons.IH [OF this] show ?case by simp
qed

lemma open_inv_run: "length (open_alerts (engine_run rule b evs) k) \<le> 1"
  unfolding engine_run_def by (rule open_inv_foldl) (simp add: open_alerts_def)

lemma pending_or_sent_le_open: "length (pending_or_sent q k) \<le> length (open_alerts q k)"
proof (induction q)
  case Nil
  show ?case by (simp add: pending_or_sent_def open_alerts_def)
next
  case (Cons a q)
  then show ?case by (auto simp: pending_or_sent_def open_alerts_def terminal_def)
qed

lemma enqueue_existing:
  assumes "list_ex (open_for ev) q"
  shows "length (enqueue now ev q) = length q
         \<and> (\<forall>a \<in> set (enqueue now ev q).
               open_for ev a \<longrightarrow> ups_score a = ev_ups_score ev \<and> previous_ups a = ev_previous_ups ev)"
  using assms
  by (auto simp: enqueue_def open_for_def refresh_def alert_key_def)

text \<open>
  Claim C3. Under either failure rule, after any sequence of qualifying events,
  dispatches and channel answers, a
  (user_id, game_id, alert_type) has at most one alert that is pending or sent (indeed at
  most one that is not terminal). A qualifying event that finds such an alert adds no row
  and leaves that alert with the event's \<open>ups_score\<close> and \<open>previous_ups\<close>; only when
  there is none is a new pending alert appended.
\<close>

theorem C3_one_open_alert_per_target:
  "length (pending_or_sent (engine_run rule b evs) k) \<le> 1
   \<and> length (open_alerts (engine_run rule b evs) k) \<le> 1
   \<and> (list_ex (open_for ev) (engine_run rule b evs) \<longrightarrow>
         length (enqueue now ev (engine_run rule b evs)) = length (engine_run rule b evs)
         \<and> (\<forall>a \<in> set (enqueue now ev (engine_run rule b evs)).
               open_for ev a \<longrightarrow>
                 ups_score a = ev_ups_score ev \<and> previous_ups a = ev_previous_ups ev))
   \<and> (\<not> list_ex (open_for ev) (engine_run rule b evs) \<longrightarrow>
         enqueue now ev (engine_run rule b evs)
           = engine_run rule b evs @ [new_alert (length (engine_run rule b evs)) now ev])"
proof (intro conjI impI)
  show "length (open_alerts (engine_run rule b evs) k) \<le> 1" by (rule open_inv_run)
  with pending_or_sent_le_open [of "engine_run rule b evs" k]
  show "length (pending_or_sent (engine_run rule b evs) k) \<le> 1" by simp
next
  assume "list_ex (open_for ev) (engine_run rule b evs)"
  from enqueue_existing [OF this, of now]
  show "length (enqueue now ev (engine_run rule b evs)) = length (engine_run rule b evs)"
    and "\<forall>a \<in> set (enqueue now ev (engine_run rule b evs)).
           open_for ev a \<longrightarrow> ups_score a = ev_ups_score ev \<and> previous_ups a = ev_previous_ups ev"
    by simp_all
next
  assume "\<not> list_ex (open_for ev) (engine_run rule b evs)"
  then show "enqueue now ev (engine_run rule b evs)
               = engine_run rule b evs @ [new_alert (length (engine_run rule b evs)) now ev]"
    by (simp add: enqueue_def)
qed

theorem C3_one_open_alert_witness:
  "list_ex (open_for (example_event\<lparr>ev_ups_score := 80, ev_previous_ups := Some 70\<rparr>))
     (engine_run ContractSentence 10 [Enqueue 0 example_event, Dispatch 1])
   \<and> length (enqueue 2 (example_event\<lparr>ev_ups_score := 80, ev_previous_ups := Some 70\<rparr>)
         (engine_run ContractSentence 10 [Enqueue 0 example_event, Dispatch 1])) = 1
   \<and> map (\<lambda>a. (q_status a, ups_score a, previous_ups a))
         (enqueue 2 (example_event\<lparr>ev_ups_score := 80, ev_previous_ups := Some 70\<rparr>)
            (engine_run ContractSentence 10 [Enqueue 0 example_event, Dispatch 1]))
       = [(Sent, 80, Some 70)]
   \<and> length (pending_or_sent (engine_run ContractSentence 10 [Enqueue 0 example_event, Dispatch 1])
                (Some ''u1'', ''g1'', ups_threshold)) = 1"
proof -
  have existing:
    "list_ex (open_for (example_event\<lparr>ev_ups_score := 80, ev_previous_ups := Some 70\<rparr>))
       (engine_run ContractSentence 10 [Enqueue 0 example_event, Dispatch 1])"
    by code_simp
  have len: "length (engine_run ContractSentence 10 [Enqueue 0 example_event, Dispatch 1]) = 1"
    by code_simp
  have refreshed:
    "map (\<lambda>a. (q_status a, ups_score a, previous_ups a))
       (enqueue 2 (example_event\<lparr>ev_ups_score := 80, ev_previous_ups := Some 70\<rparr>)
          (engine_run ContractSentence 10 [Enqueue 0 example_event, Dispatch 1]))
     = [(Sent, 80, Some 70)]"
    by code_simp
  have one:
    "length (pending_or_sent (engine_run ContractSentence 10 [Enqueue 0 example_event, Dispatch 1])
               (Some ''u1'', ''g1'', ups_threshold)) = 1"
    by code_simp
  from existing len refreshed one
    C3_one_open_alert_per_target
      [of ContractSentence 10 "[Enqueue 0 example_event, Dispatch 1]" "(Some ''u1'', ''g1'', ups_threshold)"
          "example_event\<lparr>ev_ups_score := 80, ev_previous_ups := Some 70\<rparr>" 2]
  show ?thesis by simp
qed

text \<open>
  A dispatch hands to the channel exactly the alerts of the dequeue order, none of which
  is terminal.
\<close>

lemma dequeue_order_never_terminal:
  "a \<in> set (dequeue_order b now q) \<Longrightarrow> a \<in> set q \<and> \<not> terminal (q_status a)"
  by (auto simp: dequeue_order_def terminal_def)

lemma dispatch_sends_dequeued:
  "a \<in> set q \<Longrightarrow>
   a \<in> set (dequeue_order b now q) \<longleftrightarrow> attempts (dispatch_one b now a) = attempts a + 1"
  by (auto simp: dequeue_order_def dispatch_one_def)




section \<open>Properties of the job scheduler\<close>

lemma is_running_iff: "is_running s job \<longleftrightarrow> running_runs s job \<noteq> 0"
  by (auto simp: is_running_def running_runs_def list_ex_iff filter_empty_conv)

lemma job_inv_start:
  assumes "job_inv s j" "\<not> is_running s job"
  shows "job_inv (start_run s job now) j"
  using assms
  by (auto simp: job_inv_def is_running_iff running_runs_def invocations_def start_run_def new_run_def)

lemma job_inv_tick: "job_inv s j \<Longrightarrow> job_inv (tick s job now) j"
  by (auto simp: tick_def job_inv_start)
     (auto simp: job_inv_def running_runs_def invocations_def new_run_def)

lemma job_inv_run_now: "job_inv s j \<Longrightarrow> run_now s job now = Inr s' \<Longrightarrow> job_inv s' j"
  by (auto simp: run_now_def job_inv_start split: if_splits)

lemma finalize_not_running: "run_status (finalize_run now res r) \<noteq> Running"
  by (cases res) (simp_all add: finalize_run_def)

lemma finalize_job_name: "job_name (finalize_run now res r) = job_name r"
  by (cases res) (simp_all add: finalize_run_def)

lemma filter_finalize_other:
  "j \<noteq> job \<Longrightarrow>
   length (filter (\<lambda>r. job_name r = j \<and> run_status r = Running)
            (map (\<lambda>r. if job_name r = job \<and> run_status r = Running then finalize_run now res r else r) rs))
   = length (filter (\<lambda>r. job_name r = j \<and> run_status r = Running) rs)"
  by (induction rs) (auto simp: finalize_job_name)

lemma filter_finalize_same:
  "filter (\<lambda>r. job_name r = job \<and> run_status r = Running)
            (map (\<lambda>r. if job_name r = job \<and> run_status r = Running then finalize_run now res r else r) rs)
   = []"
  by (induction rs) (auto simp: finalize_job_name finalize_not_running)

lemma count_list_remove1_other: "j \<noteq> job \<Longrightarrow> count_list (remove1 job xs) j = count_list xs j"
  by (induction xs) auto

lemma count_list_remove1_same: "count_list (remove1 job xs) job = count_list xs job - 1"
  by (induction xs) auto

lemma pipeline_runs_ended:
  "job \<in> set (executing s) \<Longrightarrow>
   pipeline_runs (handler_ended s job now res)
     = map (\<lambda>r. if job_name r = job \<and> run_status r = Running then finalize_run now res r else r)
         (pipeline_runs s)"
  by (simp add: handler_ended_def)

lemma running_runs_ended_other:
  "j \<noteq> job \<Longrightarrow> job \<in> set (executing s) \<Longrightarrow>
   running_runs (handler_ended s job now res) j = running_runs s j"
  by (simp only: running_runs_def pipeline_runs_ended filter_finalize_other simp_thms)

lemma running_runs_ended_same:
  "job \<in> set (executing s) \<Longrightarrow> running_runs (handler_ended s job now res) job = 0"
  by (simp only: running_runs_def pipeline_runs_ended filter_finalize_same list.size)

lemma invocations_ended:
  "job \<in> set (executing s) \<Longrightarrow>
   invocations (handler_ended s job now res) j
     = (if j = job then invocations s j - 1 else invocations s j)"
  by (simp add: invocations_def handler_ended_def count_list_remove1_same count_list_remove1_other)

lemma job_inv_ended:
  assumes "job_inv s j"
  shows "job_inv (handler_ended s job now res) j"
proof (cases "job \<in> set (executing s)")
  case False
  with assms show ?thesis by (simp add: handler_ended_def)
next
  case in_progress: True
  show ?thesis
  proof (cases "j = job")
    case True
    with assms have "invocations s job \<le> 1" by (simp add: job_inv_def)
    with True in_progress show ?thesis
      by (simp add: job_inv_def running_runs_ended_same invocations_ended)
  next
    case False
    with assms in_progress show ?thesis
      by (simp add: job_inv_def running_runs_ended_other invocations_ended)
  qed
qed

lemma job_inv_step: "job_inv s j \<Longrightarrow> job_inv (scheduler_step s ev) j"
  by (cases ev) (auto simp: job_inv_tick job_inv_ended job_inv_run_now split: sum.splits)

lemma job_inv_foldl: "job_inv s j \<Longrightarrow> job_inv (foldl scheduler_step s evs) j"
  by (induction evs arbitrary: s) (auto simp: job_inv_step)

lemma job_inv_run: "job_inv (scheduler_run evs) j"
  unfolding scheduler_run_def
  by (rule job_inv_foldl) (simp add: job_inv_def scheduler_init_def running_runs_def invocations_def)

text \<open>
  Claim C5. After any sequence of ticks, manual triggers and handler endings, a job has
  at most one \<open>running\<close> JobRun and at most one handler invocation in progress. A tick
  that arrives while the job is running appends a \<open>skipped\<close> JobRun and invokes
  nothing, and \<open>run_now\<close> fails with \<open>AlreadyRunning\<close>.
\<close>

theorem C5_no_overlapping_runs:
  "running_runs (scheduler_run events) job \<le> 1
   \<and> invocations (scheduler_run events) job \<le> 1
   \<and> (is_running (scheduler_run events) job \<longrightarrow>
         pipeline_runs (tick (scheduler_run events) job now)
           = pipeline_runs (scheduler_run events) @ [new_run job Skipped now]
         \<and> executing (tick (scheduler_run events) job now) = executing (scheduler_run events)
         \<and> run_now (scheduler_run events) job now = Inl AlreadyRunning)"
proof -
  from job_inv_run [of events job]
  have "running_runs (scheduler_run events) job \<le> 1" "invocations (scheduler_run events) job \<le> 1"
    by (simp_all add: job_inv_def)
  then show ?thesis by (simp add: tick_def run_now_def)
qed

theorem C5_no_overlapping_runs_witness:
  "is_running (scheduler_run [Tick ''odds_snapshot'' 0]) ''odds_snapshot''
   \<and> running_runs (scheduler_run [Tick ''odds_snapshot'' 0]) ''odds_snapshot'' = 1
   \<and> invocations (scheduler_run [Tick ''odds_snapshot'' 0]) ''odds_snapshot'' = 1
   \<and> pipeline_runs (tick (scheduler_run [Tick ''odds_snapshot'' 0]) ''odds_snapshot'' 900)
       = [new_run ''odds_snapshot'' Running 0, new_run ''odds_snapshot'' Skipped 900]
   \<and> executing (tick (scheduler_run [Tick ''odds_snapshot'' 0]) ''odds_snapshot'' 900)
       = [''odds_snapshot'']
   \<and> run_now (scheduler_run [Tick ''odds_snapshot'' 0]) ''odds_snapshot'' 900 = Inl AlreadyRunning"
  using C5_no_overlapping_runs [of "[Tick ''odds_snapshot'' 0]" "''odds_snapshot''" 900]
  by (simp add: scheduler_run_def scheduler_init_def tick_def start_run_def is_running_def
        running_runs_def invocations_def new_run_def run_now_def)

section \<open>Properties of drivers and key signals\<close>

lemma pad_to_three_replicate:
  "pad_to_three filler xs = xs @ replicate (3 - length xs) filler"
proof (induction filler xs rule: pad_to_three.induct)
  case (1 filler xs)
  show ?case
  proof (cases "length xs < 3")
    case True
    then have "3 - length xs = Suc (3 - length (xs @ [filler]))" by simp
    with True 1 show ?thesis
      by (subst pad_to_three.simps) (simp add: replicate_append_same)
  next
    case False
    then show ?thesis by (subst pad_to_three.simps) simp
  qed
qed

lemma length_pad_to_three: "length (pad_to_three filler xs) = max 3 (length xs)"
  by (simp add: pad_to_three_replicate)

lemma pad_to_three_Nil: "pad_to_three filler [] = [filler, filler, filler]"
  by (simp add: pad_to_three_replicate numeral_3_eq_3)

lemma length_getKeySignals:
  "1 \<le> length (getKeySignals game) \<and> length (getKeySignals game) \<le> 3"
  by (auto simp: getKeySignals_def slice0_def length_pad_to_three
           split: option.splits list.splits)

lemma length_build_drivers:
  "3 \<le> length (build_drivers js game p ms) \<and> length (build_drivers js game p ms) \<le> 6"
  by (simp add: build_drivers_def slice0_def length_pad_to_three)

text \<open>
  Claim C6. The key signals shown for a game are never empty, and neither is the driver
  list generated for a mock game. A game without drivers whose market signal clears none
  of the three inclusion tests gets the fallback label, three times; a game for which no
  driver is generated gets three fallback drivers.
\<close>

theorem C6_key_signals_never_empty:
  "getKeySignals game \<noteq> []
   \<and> build_drivers js g p ms \<noteq> []
   \<and> ((drivers game = None \<or> drivers game = Some []) \<and> market_signals_of game = []
        \<longrightarrow> getKeySignals game = replicate 3 MODEL_CONFIDENCE_HIGH)
   \<and> (generated_drivers js g p ms = []
        \<longrightarrow> build_drivers js g p ms = replicate 3 \<lparr>label = MODEL_CONFIDENCE_HIGH\<rparr>)"
proof (intro conjI impI)
  from length_getKeySignals [of game] show "getKeySignals game \<noteq> []" by auto
next
  from length_build_drivers [of js g p ms] show "build_drivers js g p ms \<noteq> []"
    by auto
next
  assume "(drivers game = None \<or> drivers game = Some []) \<and> market_signals_of game = []"
  then show "getKeySignals game = replicate 3 MODEL_CONFIDENCE_HIGH"
    by (auto simp: getKeySignals_def slice0_def pad_to_three_Nil numeral_3_eq_3)
next
  assume "generated_drivers js g p ms = []"
  then show "build_drivers js g p ms = replicate 3 \<lparr>label = MODEL_CONFIDENCE_HIGH\<rparr>"
    by (simp add: build_drivers_def slice0_def pad_to_three_Nil numeral_3_eq_3)
qed


theorem C6_key_signals_witness:
  "drivers example_game = None
   \<and> market_signals_of example_game = []
   \<and> getKeySignals example_game = replicate 3 MODEL_CONFIDENCE_HIGH
   \<and> generated_drivers example_number_ops (Game.truncate example_game) example_prediction example_signal = []
   \<and> build_drivers example_number_ops (Game.truncate example_game) example_prediction example_signal
        = replicate 3 \<lparr>label = MODEL_CONFIDENCE_HIGH\<rparr>"
  using C6_key_signals_never_empty
          [of example_game example_number_ops "Game.truncate example_game" example_prediction example_signal]
  by (simp add: market_signals_of_def generated_drivers_def general_drivers_def
        example_game_def transformApiGame_def example_api_game_def example_prediction_def
        example_signal_def Game.truncate_def)

section \<open>Properties of the games API service\<close>

lemma untransform_transformApiGame:
  "untransform (transformApiGame a) (api_venue a) = Some a"
  by (simp add: untransform_def transformApiGame_def)

lemma transformApiGame_nested:
  "prediction (transformApiGame a) = api_prediction a
   \<and> marketSignal (transformApiGame a) = api_marketSignal a"
  by (simp add: transformApiGame_def)

text \<open>
  Claim C7, as stated, fails: \<open>transformApiGame\<close> drops the \<open>venue\<close> of the API game.
  Two API games that differ in their venue are transformed into the same
  \<open>GameWithPrediction\<close>.
\<close>

theorem C7_venue_dropped:
  "transformApiGame example_api_game
     = transformApiGame (example_api_game\<lparr>api_venue := None\<rparr>)
   \<and> api_venue example_api_game = Some ''TD Garden''
   \<and> api_venue (example_api_game\<lparr>api_venue := None\<rparr>) = None"
  by (simp add: transformApiGame_def example_api_game_def)

text \<open>
  Claim C7, amended. When the request for \<open>/games?sport=S\<close> succeeds, \<open>fetchGames\<close>
  returns the response's \<open>cached\<close> flag and \<open>fetched_at\<close> timestamp together with one
  game per API game, in order; each carries the API game's prediction and market signal
  unchanged and every field of the API game except \<open>venue\<close>: the API game is recovered
  from the transformed game and the venue.
\<close>

theorem C7_fetchGames_keeps_all_but_venue:
  assumes "api_get ''/games'' [(''sport'', sport_name S)] = Inr response"
  shows "\<exists>result. fetchGames api_get (Some S) = Inr result
           \<and> cached result = r_cached response
           \<and> fetchedAt result = r_fetched_at response
           \<and> games result = map transformApiGame (r_games response)
           \<and> (\<forall>a \<in> set (r_games response).
                 prediction (transformApiGame a) = api_prediction a
                 \<and> marketSignal (transformApiGame a) = api_marketSignal a
                 \<and> untransform (transformApiGame a) (api_venue a) = Some a)"
  using assms
  by (simp add: fetchGames_def untransform_transformApiGame transformApiGame_nested)

theorem C7_fetchGames_witness:
  "fetchGames (\<lambda>endpoint params. (Inr example_response :: unit + GamesApiResponse)) (Some NBA)
     = Inr \<lparr> games = [example_game], fetchedAt = ''2025-01-05T10:00:01Z'', cached = True \<rparr>
   \<and> prediction example_game = example_prediction
   \<and> marketSignal example_game = example_signal
   \<and> untransform example_game (Some ''TD Garden'') = Some example_api_game"
  using C7_fetchGames_keeps_all_but_venue
          [of "\<lambda>endpoint params. (Inr example_response :: unit + GamesApiResponse)" NBA example_response]
  by (auto simp: example_response_def example_game_def example_api_game_def)

section \<open>Properties of the games filter\<close>

lemma keep_game_sport:
  "keep_game toDate gs flt g \<Longrightarrow> filter_sport flt = Some s \<Longrightarrow> sport g = sport_name s"
  by (simp add: keep_game_def if_bool_eq_conj)

lemma keep_game_min: "keep_game toDate gs flt g \<Longrightarrow> applicable_min flt \<le> ups g"
  unfolding keep_game_def applicable_min_def
  by (cases "minUpsPct flt") (auto split: if_splits)

lemma keep_game_upsetiq_sport:
  "keep_game_upsetiq toDate flt g \<Longrightarrow> filter_sport flt = Some s \<Longrightarrow> sport g = sport_name s"
  by (simp add: keep_game_upsetiq_def if_bool_eq_conj)

lemma keep_game_upsetiq_min:
  "keep_game_upsetiq toDate flt g \<Longrightarrow> applicable_min_upsetiq flt g \<le> ups g"
  unfolding keep_game_upsetiq_def applicable_min_upsetiq_def applicable_min_def
  by (cases "minUpsPct flt") (auto split: if_splits)

text \<open>
  Claim C8, as stated, fails on the copy in src/upsetiq/frontend: with \<open>minUpsPct\<close> set
  to 55, an NBA game with an upset probability of 30 stays in \<open>filteredGames\<close>, since that
  copy consults \<open>minUpsPct\<close> for NFL games only.
\<close>

theorem C8_upsetiq_ignores_minUpsPct:
  "filteredGames_upsetiq example_toDate [example_game] example_filter = [example_game]
   \<and> minUpsPct example_filter = Some 55
   \<and> ups example_game = 30"
  by (simp add: filteredGames_upsetiq_def keep_game_upsetiq_def example_filter_def
        example_game_def transformApiGame_def example_api_game_def example_prediction_def ups_def)

text \<open>
  Claim C8, amended. Every game of \<open>filteredGames\<close> is one of \<open>games\<close>, has the filter's
  sport when one is set, and has an upset probability of at least the applicable minimum.
  In src/frontend that minimum is \<open>minUpsPct\<close> when defined, otherwise
  \<open>confidenceThreshold\<close>; in src/upsetiq/frontend it is \<open>minUpsPct\<close> only when defined
  and the game is an NFL game, otherwise \<open>confidenceThreshold\<close>.
\<close>

theorem C8_filteredGames_sound:
  "(g \<in> set (filteredGames toDate gs flt) \<longrightarrow>
      g \<in> set gs
      \<and> (\<forall>s. filter_sport flt = Some s \<longrightarrow> sport g = sport_name s)
      \<and> applicable_min flt \<le> ups g)
   \<and> (g \<in> set (filteredGames_upsetiq toDate gs flt) \<longrightarrow>
      g \<in> set gs
      \<and> (\<forall>s. filter_sport flt = Some s \<longrightarrow> sport g = sport_name s)
      \<and> applicable_min_upsetiq flt g \<le> ups g)"
  by (auto simp: filteredGames_def filteredGames_upsetiq_def
           dest: keep_game_sport keep_game_min keep_game_upsetiq_sport keep_game_upsetiq_min)

theorem C8_filteredGames_witness:
  "example_game \<in> set (filteredGames example_toDate [example_game] (example_filter\<lparr>minUpsPct := Some 25\<rparr>))
   \<and> sport example_game = sport_name NBA
   \<and> applicable_min (example_filter\<lparr>minUpsPct := Some 25\<rparr>) = 25
   \<and> ups example_game = 30
   \<and> example_game \<in> set (filteredGames_upsetiq example_toDate [example_game] example_filter)
   \<and> applicable_min_upsetiq example_filter example_game = 0"
  using C8_filteredGames_sound
          [of example_game example_toDate "[example_game]" "example_filter\<lparr>minUpsPct := Some 25\<rparr>"]
  by (simp add: filteredGames_def keep_game_def filteredGames_upsetiq_def keep_game_upsetiq_def
        applicable_min_def applicable_min_upsetiq_def example_filter_def
        example_game_def transformApiGame_def example_api_game_def example_prediction_def ups_def)

section \<open>Properties of the grouping by day\<close>

lemma set_map_set:
  "(k', v') \<in> set (map_set kvs k v) \<Longrightarrow> (k', v') \<in> set kvs \<or> (k' = k \<and> v' = v)"
  by (induction kvs) (auto split: if_splits)

lemma map_get_or_empty_in:
  "x \<in> set (map_get_or_empty kvs k) \<Longrightarrow> \<exists>arr. (k, arr) \<in> set kvs \<and> x \<in> set arr"
  by (induction kvs) (auto split: if_splits)

lemma collect_by_day_sport:
  assumes "\<forall>(k, arr) \<in> set byDay. \<forall>g \<in> set arr. sport g = sport_name s"
  shows "\<forall>(k, arr) \<in> set (collect_by_day dayLabel s gs byDay). \<forall>g \<in> set arr. sport g = sport_name s"
  using assms
proof (induction gs arbitrary: byDay)
  case Nil
  then show ?case by simp
next
  case (Cons g gs)
  show ?case
  proof (cases "sport g = sport_name s")
    case False
    with Cons show ?thesis by simp
  next
    case True
    let ?lbl = "dayLabel (start_time g)"
    let ?arr = "map_get_or_empty byDay ?lbl @ [g]"
    have "\<forall>(k, arr) \<in> set (map_set byDay ?lbl ?arr). \<forall>g \<in> set arr. sport g = sport_name s"
    proof (clarify)
      fix k arr x
      assume in_set: "(k, arr) \<in> set (map_set byDay ?lbl ?arr)" and x: "x \<in> set arr"
      from set_map_set [OF in_set] show "sport x = sport_name s"
      proof
        assume "(k, arr) \<in> set byDay"
        with Cons.prems x show ?thesis by auto
      next
        assume "k = ?lbl \<and> arr = ?arr"
        with x True Cons.prems map_get_or_empty_in [of x byDay ?lbl] show ?thesis by auto
      qed
    qed
    from Cons.IH [OF this] True show ?thesis by (simp add: Let_def)
  qed
qed

lemma ups_descending_sort: "ups_descending (sort_by_ups_desc gs)"
proof -
  have "sorted (map (\<lambda>g. - ups g) (sort_key (\<lambda>g. - ups g) gs))"
    by (rule sorted_sort_key)
  then have "sorted_wrt (\<lambda>a b. - ups a \<le> - ups b) (sort_key (\<lambda>g. - ups g) gs)"
    by (simp add: sorted_map)
  then show ?thesis
    by (simp add: ups_descending_def sort_by_ups_desc_def ups_def [abs_def])
qed

lemma set_insert_by: "set (insert_by cmp x xs) = insert x (set xs)"
  by (induction xs) auto

lemma set_sort_by: "set (sort_by cmp xs) = set xs"
  by (induction xs) (simp_all add: sort_by_def set_insert_by)

lemma set_sort_by_ups_desc: "set (sort_by_ups_desc gs) = set gs"
  by (simp add: sort_by_ups_desc_def)

text \<open>
  Claim C9. Every group returned by \<open>groupGamesByDay\<close> holds games of the requested
  sport only, ordered by upset probability, highest first.
\<close>

theorem C9_groups_of_sport_sorted:
  "\<forall>grp \<in> set (groupGamesByDay dayLabel getTime gs s).
     (\<forall>g \<in> set (dg_games grp). sport g = sport_name s) \<and> ups_descending (dg_games grp)"
proof
  fix grp
  assume "grp \<in> set (groupGamesByDay dayLabel getTime gs s)"
  then obtain lbl arr where
    entry: "(lbl, arr) \<in> set (collect_by_day dayLabel s gs [])" and
    grp: "grp = \<lparr>dg_label = lbl, dg_games = sort_by_ups_desc arr\<rparr>"
    by (auto simp: groupGamesByDay_def Let_def set_sort_by)
  from collect_by_day_sport [of "[]" s dayLabel gs] entry
  have "\<forall>g \<in> set arr. sport g = sport_name s" by auto
  with grp show "(\<forall>g \<in> set (dg_games grp). sport g = sport_name s) \<and> ups_descending (dg_games grp)"
    by (simp add: set_sort_by_ups_desc ups_descending_sort)
qed

theorem C9_groups_witness:
  "groupGamesByDay example_dayLabel example_getTime
     [example_game, example_game\<lparr>sport := ''NFL''\<rparr>, example_game_hot] NBA
     = [\<lparr>dg_label = ''Sunday, Jan 5'', dg_games = [example_game_hot, example_game]\<rparr>]
   \<and> sport example_game_hot = sport_name NBA \<and> sport example_game = sport_name NBA
   \<and> ups_descending [example_game_hot, example_game]"
  using C9_groups_of_sport_sorted
          [of example_dayLabel example_getTime
              "[example_game, example_game\<lparr>sport := ''NFL''\<rparr>, example_game_hot]" NBA]
  by (simp add: groupGamesByDay_def sort_by_ups_desc_def sort_by_def ups_descending_def ups_def
        example_dayLabel_def example_getTime_def
        example_game_hot_def example_game_def transformApiGame_def example_api_game_def
        example_prediction_def)

section \<open>Properties of the API client\<close>

lemma on_catch_api_error: "is_api_error (on_catch error)"
  by (simp add: on_catch_def is_api_error_def split: thrown.splits)

text \<open>
  What the client does guarantee: with a well-formed URL the only raw exception \<open>get\<close>
  lets through is the rejection of \<open>response.json()\<close> on an ok response; a non-ok
  response with a non-zero status whose body is unreadable or has a readable \<open>detail\<close>
  becomes an \<open>ApiError\<close> with that status; and a rejected \<open>fetch\<close> always becomes the
  network error.
\<close>

lemma get_raw_error_only_from_json:
  assumes "new_URL env (baseUrl @ endpoint) = Inr href"
    and "get env baseUrl endpoint params = Inl (RawErr e)"
  shows "\<exists>request response. fetch env request = Inr response \<and> ok response \<and> json response = Inl e"
  using assms
  by (auto simp: get_def settle_def try_fetch_def on_catch_def
           split: sum.splits if_splits thrown.splits)

lemma non_ok_keeps_http_status:
  assumes "fetch env request = Inr response" and "\<not> ok response" and "resp_status response \<noteq> 0"
    and "json response = Inl rejected \<or> (\<exists>parsed d. json response = Inr parsed \<and> read_detail env parsed = Inr d)"
  shows "\<exists>e. settle (try_fetch env request) = Inl (ApiErr e) \<and> err_status e = resp_status response"
  using assms
  by (auto simp: settle_def try_fetch_def on_catch_def non_ok_thrown_def)

lemma fetch_rejected_network_error:
  assumes "fetch env request = Inl rejected"
  shows "settle (try_fetch env request)
           = Inl (ApiErr \<lparr>message = NETWORK_ERROR, err_status = 0, detail = Some (err_message rejected)\<rparr>)"
  using assms by (simp add: settle_def try_fetch_def on_catch_def)

text \<open>
  Claim C10 fails on the code. An ok response whose body is not JSON makes \<open>get\<close> and
  \<open>post\<close> reject with the raw \<open>SyntaxError\<close> of \<open>response.json()\<close>: the promise is
  returned from inside \<open>try\<close> without \<open>await\<close>, so \<open>catch\<close> never sees the rejection.
  And \<open>get\<close> builds its URL before \<open>try\<close>, so the \<open>TypeError\<close> of \<open>new URL\<close> reaches the
  caller as it is, where \<open>post\<close> turns the same malformed address into the network error.
\<close>

theorem C10_raw_exception_reaches_caller:
  "get html_page_platform ''https://api.upsetiq.com'' ''/games'' (Some [(''sport'', ''NFL'')])
     = Inl (RawErr \<lparr>err_name = ''SyntaxError'', err_message = ''Unexpected token < in JSON''\<rparr>)
   \<and> post html_page_platform ''https://api.upsetiq.com'' ''/alerts/subscribe'' (Some ())
     = Inl (RawErr \<lparr>err_name = ''SyntaxError'', err_message = ''Unexpected token < in JSON''\<rparr>)
   \<and> get bad_url_platform '''' ''/games'' None
     = Inl (RawErr \<lparr>err_name = ''TypeError'', err_message = ''Invalid URL''\<rparr>)
   \<and> post bad_url_platform '''' ''/games'' None
     = Inl (ApiErr \<lparr>message = NETWORK_ERROR, err_status = 0, detail = Some ''Network request failed''\<rparr>)"
  by (simp add: get_def post_def settle_def try_fetch_def on_catch_def
        html_page_platform_def bad_url_platform_def)

end
